theory Spec2Isabelle
  imports Complex_Main
begin

section \<open>Broker data model (connectors/base.py)\<close>

text \<open>
  A Python float is modelled by the real number it holds: comparisons, \<open>max\<close>, \<open>min\<close>,
  \<open>abs\<close> and \<open>math.floor\<close> are exact on it, and NaN or infinities do not occur.  A value of
  type \<open>float | None\<close> is a \<open>real option\<close>.  Datetimes are integer microseconds since the
  epoch (an aware datetime compares by its UTC instant).  Only the fields that the
  modelled functions read are kept in each record.
\<close>

datatype Side = LONG | SHORT | FLAT

datatype AccountTradeMode = DEMO | REAL | CONTEST | UNKNOWN

record SymbolMeta =
  sm_name :: string
  sm_point :: "real option"
  sm_volume_min :: "real option"
  sm_volume_max :: "real option"
  sm_volume_step :: "real option"
  sm_trade_tick_value :: "real option"
  sm_trade_tick_size :: "real option"

record Quote =
  q_bid :: real
  q_ask :: real

record Position =
  p_position_id :: int
  p_symbol :: string
  p_side :: Side
  p_volume :: real
  p_magic :: "int option"

record Deal =
  d_entry :: string
  d_profit :: "real option"
  d_magic :: "int option"

record AccountInfo =
  ai_balance :: "real option"
  ai_equity :: "real option"
  ai_trade_mode :: AccountTradeMode

text \<open>
  The string renderings that the source obtains from Python's formatting machinery
  (\<open>format(x, ".2%")\<close>, \<open>format(x, ".2f")\<close>, \<open>str\<close> of an int, \<open>datetime.isoformat\<close>, the
  rendering of an enum member inside an f-string) are library behaviour; they are taken as
  parameters.
\<close>

record Fmt =
  fmt_pct2 :: "real \<Rightarrow> string"
  fmt_f2 :: "real \<Rightarrow> string"
  fmt_int :: "int \<Rightarrow> string"
  fmt_iso :: "int \<Rightarrow> string"
  fmt_trade_mode :: "AccountTradeMode \<Rightarrow> string"

section \<open>Configuration (core/config.py)\<close>

datatype SltpMode = RR | ATR

record RiskConfig =
  risk_per_trade :: real
  max_daily_loss_pct :: real
  max_drawdown_pct :: real
  max_open_positions_total :: int
  max_open_positions_per_symbol :: int
  sltp_mode :: SltpMode
  rr_stop_points :: int
  rr_take_points :: int
  atr_sl_mult :: real
  atr_tp_mult :: real
  cooloff_enabled :: bool
  cooloff_losses :: int
  cooloff_minutes :: int

record ExecutionConfig =
  trading_enabled :: bool
  slippage_points :: int
  magic_number :: int
  retries_max_attempts :: int
  retries_backoff_seconds :: "real list"

record AppConfig =
  risk :: RiskConfig
  execution :: ExecutionConfig

section \<open>Float arithmetic\<close>

text \<open>
  The four rounded operations of binary64 arithmetic.  In the entry-check path (SL/TP,
  stop distance, sizing), where a rounding decides which grid point \<open>math.floor\<close> picks,
  they are a parameter of the model: the functions are the source's for whatever the
  operations return.  \<open>exact_ops\<close> is the arithmetic without rounding.  The equity tracking
  of the risk manager, which only compares the quantities it computes, is written with
  the unrounded operations.
\<close>

record FloatOps =
  fl_add :: "real \<Rightarrow> real \<Rightarrow> real"
  fl_sub :: "real \<Rightarrow> real \<Rightarrow> real"
  fl_mul :: "real \<Rightarrow> real \<Rightarrow> real"
  fl_div :: "real \<Rightarrow> real \<Rightarrow> real"

definition exact_ops :: FloatOps where
  "exact_ops = \<lparr>fl_add = (+), fl_sub = (-), fl_mul = (*), fl_div = (/)\<rparr>"

section \<open>Position sizing (risk/sizing.py)\<close>

record VolumeResult =
  vr_ok :: bool
  vr_volume :: "real option"
  vr_reason :: string

text \<open>\<open>float(x or 0.0)\<close> for \<open>x : float | None\<close>.\<close>

definition float_or_zero :: "real option \<Rightarrow> real" where
  "float_or_zero x = (case x of None \<Rightarrow> 0 | Some v \<Rightarrow> v)"

definition round_down_to_step :: "FloatOps \<Rightarrow> real \<Rightarrow> real \<Rightarrow> real" where
  "round_down_to_step ops v step =
     (if step \<le> 0 then v else fl_mul ops (of_int \<lfloor>fl_div ops v step\<rfloor>) step)"

definition volume_blocked :: "string \<Rightarrow> VolumeResult" where
  "volume_blocked why = \<lparr>vr_ok = False, vr_volume = None, vr_reason = why\<rparr>"

definition compute_volume ::
  "FloatOps \<Rightarrow> real \<Rightarrow> real \<Rightarrow> real \<Rightarrow> SymbolMeta \<Rightarrow> VolumeResult" where
  "compute_volume ops equity rpt stop_points symbol =
     (if equity \<le> 0 then volume_blocked ''equity unavailable''
      else if stop_points \<le> 0 then volume_blocked ''invalid stop distance''
      else
        let point = float_or_zero (sm_point symbol);
            tick_value = float_or_zero (sm_trade_tick_value symbol);
            tick_size = float_or_zero (sm_trade_tick_size symbol)
        in if point \<le> 0 \<or> tick_value \<le> 0 \<or> tick_size \<le> 0
           then volume_blocked ''missing symbol tick metadata for sizing''
           else
             let money_per_point = fl_div ops (fl_mul ops tick_value point) tick_size
             in if money_per_point \<le> 0 then volume_blocked ''invalid tick metadata''
                else
                  let risk_money = fl_mul ops equity rpt;
                      vol0 = fl_div ops risk_money (fl_mul ops stop_points money_per_point);
                      vol_min = float_or_zero (sm_volume_min symbol);
                      vol_max = (case sm_volume_max symbol of
                                   None \<Rightarrow> None
                                 | Some m \<Rightarrow> if m = 0 then None else Some m);
                      vol_step = float_or_zero (sm_volume_step symbol);
                      vol1 = (if vol_min > 0 then max vol0 vol_min else vol0);
                      vol2 = (case vol_max of
                                None \<Rightarrow> vol1
                              | Some m \<Rightarrow> if m > 0 then min vol1 m else vol1);
                      vol3 = (if vol_step > 0
                              then (let r = round_down_to_step ops vol2 vol_step
                                    in if vol_min > 0 \<and> r < vol_min then vol_min else r)
                              else vol2)
                  in if vol3 \<le> 0 then volume_blocked ''computed volume <= 0''
                     else \<lparr>vr_ok = True, vr_volume = Some vol3, vr_reason = ''risk sized''\<rparr>)"

section \<open>Stop loss and take profit (risk/sltp.py)\<close>

record SLTP =
  sl :: "real option"
  tp :: "real option"
  sltp_stop_points :: "real option"
  sltp_take_points :: "real option"

definition sltp_none :: SLTP where
  "sltp_none = \<lparr>sl = None, tp = None, sltp_stop_points = None, sltp_take_points = None\<rparr>"

definition sltp_rr :: "FloatOps \<Rightarrow> Side \<Rightarrow> real \<Rightarrow> real \<Rightarrow> int \<Rightarrow> int \<Rightarrow> SLTP" where
  "sltp_rr ops side entry point stop_points take_points =
     (if point \<le> 0 then sltp_none
      else if side = LONG
      then \<lparr>sl = Some (fl_sub ops entry (fl_mul ops (of_int stop_points) point)),
            tp = Some (fl_add ops entry (fl_mul ops (of_int take_points) point)),
            sltp_stop_points = Some (of_int stop_points),
            sltp_take_points = Some (of_int take_points)\<rparr>
      else \<lparr>sl = Some (fl_add ops entry (fl_mul ops (of_int stop_points) point)),
            tp = Some (fl_sub ops entry (fl_mul ops (of_int take_points) point)),
            sltp_stop_points = Some (of_int stop_points),
            sltp_take_points = Some (of_int take_points)\<rparr>)"

definition sltp_atr :: "FloatOps \<Rightarrow> Side \<Rightarrow> real \<Rightarrow> real \<Rightarrow> real \<Rightarrow> real \<Rightarrow> SLTP" where
  "sltp_atr ops side entry atr sl_mult tp_mult =
     (if atr \<le> 0 then sltp_none
      else
        let sl_dist = fl_mul ops atr sl_mult; tp_dist = fl_mul ops atr tp_mult
        in if side = LONG
           then \<lparr>sl = Some (fl_sub ops entry sl_dist), tp = Some (fl_add ops entry tp_dist),
                 sltp_stop_points = None, sltp_take_points = None\<rparr>
           else \<lparr>sl = Some (fl_add ops entry sl_dist), tp = Some (fl_sub ops entry tp_dist),
                 sltp_stop_points = None, sltp_take_points = None\<rparr>)"

section \<open>Position limits (risk/limits.py)\<close>

record PositionCounts =
  pc_total :: int
  pc_per_symbol :: "string \<rightharpoonup> int"

text \<open>The guard of the counting loop: the position is skipped (\<open>continue\<close>).\<close>

definition magic_mismatch :: "int option \<Rightarrow> int option \<Rightarrow> bool" where
  "magic_mismatch magic pm =
     (case magic of
        None \<Rightarrow> False
      | Some m \<Rightarrow> (case pm of None \<Rightarrow> False | Some k \<Rightarrow> k \<noteq> m))"

definition count_step :: "int option \<Rightarrow> PositionCounts \<Rightarrow> Position \<Rightarrow> PositionCounts" where
  "count_step magic c p =
     (if magic_mismatch magic (p_magic p) then c
      else \<lparr>pc_total = pc_total c + 1,
            pc_per_symbol = (pc_per_symbol c)
              (p_symbol p \<mapsto> (case pc_per_symbol c (p_symbol p) of None \<Rightarrow> 0 | Some n \<Rightarrow> n) + 1)\<rparr>)"

definition count_positions :: "Position list \<Rightarrow> int option \<Rightarrow> PositionCounts" where
  "count_positions positions magic =
     foldl (count_step magic) \<lparr>pc_total = 0, pc_per_symbol = Map.empty\<rparr> positions"

definition drawdown_pct :: "real \<Rightarrow> real \<Rightarrow> real" where
  "drawdown_pct peak equity =
     (if peak \<le> 0 then 0 else max 0 ((peak - equity) / peak))"

definition daily_loss_pct :: "real \<Rightarrow> real \<Rightarrow> real" where
  "daily_loss_pct start equity =
     (if start \<le> 0 then 0 else max 0 ((start - equity) / start))"

section \<open>Risk manager (risk/models.py, risk/risk_manager.py)\<close>

datatype DetailValue = DBool bool | DInt int | DReal real | DStr string

record RiskDecision =
  rd_allowed :: bool
  rd_reason :: string
  rd_side :: Side
  rd_volume :: "real option"
  rd_sl :: "real option"
  rd_tp :: "real option"
  rd_details :: "(string \<times> DetailValue) list"

record RiskState =
  paused :: bool
  pause_reason :: "string option"
  cooloff_until_utc :: "int option"
  loss_streak :: int
  daily_date :: "string option"
  daily_start_equity :: "real option"
  peak_equity :: "real option"

text \<open>\<open>RiskState()\<close>: the dataclass defaults.\<close>

definition fresh_state :: RiskState where
  "fresh_state = \<lparr>paused = False, pause_reason = None, cooloff_until_utc = None,
     loss_streak = 0, daily_date = None, daily_start_equity = None, peak_equity = None\<rparr>"

text \<open>
  \<open>str.upper\<close> on the ASCII letters; other bytes are left alone.  No character outside
  ASCII upper-cases to one of \<open>O\<close>, \<open>U\<close>, \<open>T\<close>, so the comparison with \<open>"OUT"\<close> is the source's.
\<close>

definition char_upper :: "char \<Rightarrow> char" where
  "char_upper c =
     (let n = of_char c :: nat in if 97 \<le> n \<and> n \<le> 122 then char_of (n - 32) else c)"

definition str_upper :: "string \<Rightarrow> string" where
  "str_upper s = map char_upper s"

text \<open>
  One iteration of the loop of \<open>on_new_deals\<close>.  The deal comes with the reading of
  \<open>datetime.now(timezone.utc)\<close> that the iteration would take.
\<close>

definition minutes_us :: "int \<Rightarrow> int" where
  "minutes_us m = m * 60000000"

definition on_new_deal :: "AppConfig \<Rightarrow> int \<Rightarrow> RiskState \<Rightarrow> Deal \<times> int \<Rightarrow> RiskState" where
  "on_new_deal cfg magic st dn =
     (let d = fst dn; now = snd dn in
      if magic_mismatch (Some magic) (d_magic d) then st
      else if str_upper (d_entry d) \<noteq> ''OUT'' then st
      else
        let profit = float_or_zero (d_profit d);
            st1 = (if profit < 0 then st\<lparr>loss_streak := loss_streak st + 1\<rparr>
                   else st\<lparr>loss_streak := 0\<rparr>)
        in if cooloff_enabled (risk cfg) \<and> loss_streak st1 \<ge> cooloff_losses (risk cfg)
           then st1\<lparr>cooloff_until_utc := Some (now + minutes_us (cooloff_minutes (risk cfg)))\<rparr>
           else st1)"

definition on_new_deals :: "AppConfig \<Rightarrow> RiskState \<Rightarrow> (Deal \<times> int) list \<Rightarrow> int \<Rightarrow> RiskState" where
  "on_new_deals cfg st deals magic = foldl (on_new_deal cfg magic) st deals"

record EquityReport =
  er_equity :: "real option"
  er_balance :: "real option"
  er_daily_start_equity :: "real option"
  er_daily_pnl :: "real option"
  er_peak_equity :: "real option"
  er_drawdown_pct :: "real option"
  er_daily_loss_pct :: "real option"
  er_paused :: bool
  er_pause_reason :: "string option"
  er_loss_streak :: int
  er_cooloff_until_utc :: "string option"

text \<open>Truthiness of a \<open>float | None\<close>: present and not zero.\<close>

definition truthy :: "real option \<Rightarrow> bool" where
  "truthy x = (case x of None \<Rightarrow> False | Some v \<Rightarrow> v \<noteq> 0)"

definition account_equity :: "AccountInfo option \<Rightarrow> real option" where
  "account_equity account = (case account of None \<Rightarrow> None | Some a \<Rightarrow> ai_equity a)"

definition account_balance :: "AccountInfo option \<Rightarrow> real option" where
  "account_balance account = (case account of None \<Rightarrow> None | Some a \<Rightarrow> ai_balance a)"

text \<open>The first two blocks of \<open>update_equity_state\<close>: the day roll-over and the peak.\<close>

definition roll_day :: "real option \<Rightarrow> string \<Rightarrow> RiskState \<Rightarrow> RiskState" where
  "roll_day equity now_local_date st =
     (if daily_date st \<noteq> Some now_local_date
      then st\<lparr>daily_date := Some now_local_date,
              daily_start_equity :=
                (case equity of
                   None \<Rightarrow> daily_start_equity st
                 | Some e \<Rightarrow> if e > 0 then Some e else daily_start_equity st),
              loss_streak := 0,
              cooloff_until_utc := None\<rparr>
      else st)"

definition track_peak :: "real option \<Rightarrow> RiskState \<Rightarrow> RiskState" where
  "track_peak equity st =
     (case equity of
        None \<Rightarrow> st
      | Some e \<Rightarrow>
          if e > 0
          then (case peak_equity st of
                  None \<Rightarrow> st\<lparr>peak_equity := Some e\<rparr>
                | Some p \<Rightarrow> if e > p then st\<lparr>peak_equity := Some e\<rparr> else st)
          else st)"

definition computed_dd :: "real option \<Rightarrow> RiskState \<Rightarrow> real option" where
  "computed_dd equity st =
     (case equity of
        None \<Rightarrow> None
      | Some e \<Rightarrow>
          (case peak_equity st of
             None \<Rightarrow> None
           | Some p \<Rightarrow> if p \<noteq> 0 then Some (drawdown_pct p e) else None))"

definition computed_dl :: "real option \<Rightarrow> RiskState \<Rightarrow> real option" where
  "computed_dl equity st =
     (case equity of
        None \<Rightarrow> None
      | Some e \<Rightarrow>
          (case daily_start_equity st of
             None \<Rightarrow> None
           | Some s \<Rightarrow> if s \<noteq> 0 then Some (daily_loss_pct s e) else None))"

text \<open>
  The three pause tests, in the source's order; a later test that fires overwrites the
  reason of an earlier one.
\<close>

definition pause_verdict ::
  "AppConfig \<Rightarrow> Fmt \<Rightarrow> int \<Rightarrow> real option \<Rightarrow> real option \<Rightarrow> int option \<Rightarrow> bool \<times> string option" where
  "pause_verdict cfg fmt now dl dd cooloff =
     (let v0 = (False, None);
          v1 = (case dl of
                  None \<Rightarrow> v0
                | Some x \<Rightarrow>
                    if x \<ge> max_daily_loss_pct (risk cfg)
                    then (True, Some (''max daily loss breached ('' @ fmt_pct2 fmt x @ '' >= ''
                                       @ fmt_pct2 fmt (max_daily_loss_pct (risk cfg)) @ '')''))
                    else v0);
          v2 = (case dd of
                  None \<Rightarrow> v1
                | Some x \<Rightarrow>
                    if x \<ge> max_drawdown_pct (risk cfg)
                    then (True, Some (''max drawdown breached ('' @ fmt_pct2 fmt x @ '' >= ''
                                       @ fmt_pct2 fmt (max_drawdown_pct (risk cfg)) @ '')''))
                    else v1)
      in (case cooloff of
            None \<Rightarrow> v2
          | Some c \<Rightarrow> if now < c then (True, Some (''cooloff until '' @ fmt_iso fmt c)) else v2))"

definition update_equity_state ::
  "AppConfig \<Rightarrow> Fmt \<Rightarrow> int \<Rightarrow> AccountInfo option \<Rightarrow> string \<Rightarrow> RiskState
     \<Rightarrow> EquityReport \<times> RiskState" where
  "update_equity_state cfg fmt now account now_local_date st =
     (let equity = account_equity account;
          balance = account_balance account;
          st1 = roll_day equity now_local_date st;
          st2 = track_peak equity st1;
          dd = computed_dd equity st2;
          dl = computed_dl equity st2;
          v = pause_verdict cfg fmt now dl dd (cooloff_until_utc st2);
          st3 = st2\<lparr>paused := fst v, pause_reason := snd v\<rparr>
      in (\<lparr>er_equity = equity,
           er_balance = balance,
           er_daily_start_equity = daily_start_equity st3,
           er_daily_pnl =
             (case equity of
                None \<Rightarrow> None
              | Some e \<Rightarrow>
                  (case daily_start_equity st3 of
                     None \<Rightarrow> None
                   | Some s \<Rightarrow> if s \<noteq> 0 then Some (e - s) else None)),
           er_peak_equity = peak_equity st3,
           er_drawdown_pct = dd,
           er_daily_loss_pct = dl,
           er_paused = fst v,
           er_pause_reason = snd v,
           er_loss_streak = loss_streak st3,
           er_cooloff_until_utc = map_option (fmt_iso fmt) (cooloff_until_utc st3)\<rparr>,
          st3))"

definition blocked :: "string \<Rightarrow> Side \<Rightarrow> (string \<times> DetailValue) list \<Rightarrow> RiskDecision" where
  "blocked why side details =
     \<lparr>rd_allowed = False, rd_reason = why, rd_side = side, rd_volume = None,
      rd_sl = None, rd_tp = None, rd_details = details\<rparr>"

definition compute_sltp ::
  "FloatOps \<Rightarrow> AppConfig \<Rightarrow> Side \<Rightarrow> real \<Rightarrow> real \<Rightarrow> (string \<rightharpoonup> real) \<Rightarrow> SLTP" where
  "compute_sltp ops cfg side entry point features =
     (if sltp_mode (risk cfg) = ATR
      then sltp_atr ops side entry (float_or_zero (features ''atr14''))
             (atr_sl_mult (risk cfg)) (atr_tp_mult (risk cfg))
      else sltp_rr ops side entry point (rr_stop_points (risk cfg)) (rr_take_points (risk cfg)))"

definition stop_points_of :: "FloatOps \<Rightarrow> real \<Rightarrow> real \<Rightarrow> real \<Rightarrow> real" where
  "stop_points_of ops entry sl_price point =
     (if point \<le> 0 then 0 else fl_div ops \<bar>fl_sub ops entry sl_price\<bar> point)"

definition sltp_mode_str :: "SltpMode \<Rightarrow> string" where
  "sltp_mode_str m = (case m of RR \<Rightarrow> ''rr'' | ATR \<Rightarrow> ''atr'')"

definition check_entry ::
  "FloatOps \<Rightarrow> AppConfig \<Rightarrow> Fmt \<Rightarrow> RiskState \<Rightarrow> string \<Rightarrow> Side \<Rightarrow> Quote \<Rightarrow> SymbolMeta
     \<Rightarrow> (string \<rightharpoonup> real) \<Rightarrow> Position list \<Rightarrow> AccountInfo option \<Rightarrow> RiskDecision" where
  "check_entry ops cfg fmt st symbol side quote symbol_meta features positions account =
     (if side \<notin> {LONG, SHORT} then blocked ''side is not entry'' side []
      else if paused st
      then blocked (case pause_reason st of
                      None \<Rightarrow> ''risk paused''
                    | Some r \<Rightarrow> if r = [] then ''risk paused'' else r)
             side [(''paused'', DBool True)]
      else
        let counts = count_positions positions (Some (magic_number (execution cfg)));
            per_sym = (case pc_per_symbol counts symbol of None \<Rightarrow> 0 | Some n \<Rightarrow> n)
        in if pc_total counts \<ge> max_open_positions_total (risk cfg)
           then blocked (''max open positions reached ('' @ fmt_int fmt (pc_total counts) @ '')'')
                  side [(''open_positions_total'', DInt (pc_total counts))]
           else if per_sym \<ge> max_open_positions_per_symbol (risk cfg)
           then blocked (''max positions for symbol reached ('' @ symbol @ '')'')
                  side [(''open_positions_symbol'', DInt per_sym)]
           else
             let point = float_or_zero (sm_point symbol_meta)
             in if point \<le> 0 then blocked ''symbol point missing'' side []
                else
                  let entry = (if side = LONG then q_ask quote else q_bid quote);
                      sltp = compute_sltp ops cfg side entry point features
                  in (case sl sltp of
                        None \<Rightarrow> blocked ''failed to compute SL/TP'' side []
                      | Some sl_price \<Rightarrow>
                          (case tp sltp of
                             None \<Rightarrow> blocked ''failed to compute SL/TP'' side []
                           | Some tp_price \<Rightarrow>
                               let stop_points = stop_points_of ops entry sl_price point;
                                   equity = float_or_zero (account_equity account);
                                   vol_res = compute_volume ops equity (risk_per_trade (risk cfg))
                                               stop_points symbol_meta
                               in if \<not> vr_ok vol_res \<or> \<not> truthy (vr_volume vol_res)
                                  then blocked (''sizing blocked: '' @ vr_reason vol_res) side []
                                  else \<lparr>rd_allowed = True, rd_reason = ''ok'', rd_side = side,
                                        rd_volume = vr_volume vol_res,
                                        rd_sl = Some sl_price, rd_tp = Some tp_price,
                                        rd_details =
                                          [(''entry'', DReal entry),
                                           (''stop_points'', DReal stop_points),
                                           (''volume_reason'', DStr (vr_reason vol_res)),
                                           (''sltp_mode'',
                                            DStr (sltp_mode_str (sltp_mode (risk cfg))))]\<rparr>)))"

section \<open>Exceptions (core/exceptions.py and the built-in ones the modelled code raises)\<close>

datatype exn =
    RetryableBrokerError string
  | BrokerDisconnectedError string
  | BrokerError string
  | ValueError string
  | KeyError string
  | AssertionError
  | OtherError string

section \<open>Timeframes (core/timeframes.py)\<close>

definition TIMEFRAMES :: "(string \<times> int) list" where
  "TIMEFRAMES =
     [(''M1'', 60), (''M5'', 5 * 60), (''M15'', 15 * 60), (''M30'', 30 * 60),
      (''H1'', 60 * 60), (''H4'', 4 * 60 * 60), (''D1'', 24 * 60 * 60)]"

definition timeframe_seconds :: "string \<Rightarrow> exn + int" where
  "timeframe_seconds code =
     (case map_of TIMEFRAMES code of
        None \<Rightarrow> Inl (ValueError (''Unsupported timeframe: '' @ code))
      | Some s \<Rightarrow> Inr s)"

section \<open>Candle-close scheduler (engine/scheduler.py)\<close>

record CandleCloseScheduler =
  timeframe :: string
  last_candle_close_time_utc :: "int option"

definition seconds_us :: "int \<Rightarrow> int" where
  "seconds_us s = s * 1000000"

text \<open>
  \<open>poll\<close>.  The second argument is what \<open>connector.get_candles(anchor, timeframe, 3)\<close> gave:
  an exception, \<open>None\<close>, or the frame, of which only the \<open>time_utc\<close> column is read (the open
  times of the bars, as UTC instants).  A raise leaves the scheduler as it was.
\<close>

definition poll ::
  "CandleCloseScheduler \<Rightarrow> exn + int list option \<Rightarrow> exn + (int option \<times> CandleCloseScheduler)" where
  "poll sch candles =
     (case candles of
        Inl e \<Rightarrow> Inl e
      | Inr df \<Rightarrow>
          (case df of
             None \<Rightarrow> Inr (None, sch)
           | Some rows \<Rightarrow>
               if rows = [] \<or> length rows < 3 then Inr (None, sch)
               else
                 let open_dt = rows ! (length rows - 2)
                 in (case timeframe_seconds (timeframe sch) of
                       Inl e \<Rightarrow> Inl e
                     | Inr secs \<Rightarrow>
                         let close_time = open_dt + seconds_us secs
                         in if (case last_candle_close_time_utc sch of
                                  None \<Rightarrow> True
                                | Some l \<Rightarrow> close_time > l)
                            then Inr (Some close_time,
                                      sch\<lparr>last_candle_close_time_utc := Some close_time\<rparr>)
                            else Inr (None, sch))))"

text \<open>
  A run of polls on one scheduler: the close times returned, in order.  A poll that raises
  or returns nothing contributes no element.
\<close>

fun polls :: "CandleCloseScheduler \<Rightarrow> (exn + int list option) list \<Rightarrow> int list" where
  "polls sch [] = []"
| "polls sch (c # cs) =
     (case poll sch c of
        Inl e \<Rightarrow> polls sch cs
      | Inr r \<Rightarrow>
          (case fst r of
             None \<Rightarrow> polls (snd r) cs
           | Some t \<Rightarrow> t # polls (snd r) cs))"


section \<open>Idempotency key (execution/idempotency.py)\<close>

text \<open>
  \<open>make_idempotency_key\<close>; the digest \<open>sha256_hex\<close> (hashlib) is a parameter.
\<close>

definition make_idempotency_key ::
  "(string \<Rightarrow> string) \<Rightarrow> string \<Rightarrow> string \<Rightarrow> string \<Rightarrow> string \<Rightarrow> string \<Rightarrow> string" where
  "make_idempotency_key sha256_hex symbol tf candle_close_time strategy side =
     sha256_hex (symbol @ ''|'' @ tf @ ''|'' @ candle_close_time @ ''|'' @ strategy @ ''|'' @ side)"

section \<open>Orders and the decisions store (connectors/base.py, persistence/)\<close>

record OrderRequest =
  or_symbol :: string
  or_side :: Side
  or_volume :: real
  or_sl :: "real option"
  or_tp :: "real option"
  or_deviation_points :: int
  or_magic :: int
  or_comment :: string
  or_idempotency_key :: string
  or_position_id :: "int option"

text \<open>The \<open>raw\<close> dictionary of a result is kept as its JSON text.\<close>

record OrderResult =
  res_success :: bool
  res_retcode :: "int option"
  res_raw :: string

text \<open>
  The status constants of core/constants.py, which is not among the sources; the values
  are those the specification lists: no-signal, skipped, risk-blocked, opened, closed, error.
\<close>

datatype DecisionStatus = NoSignal | Skipped | RiskBlocked | Opened | Closed | Error

text \<open>
  The \<open>result\<close> dictionaries the executor stores: \<open>{"error": str(exc)}\<close> and
  \<open>{"success": b, **raw}\<close>, each with the \<open>"reason"\<close> entry that \<open>close_trade\<close> adds.
\<close>

datatype ResultJson =
    ErrorResult string "string option"
  | OutcomeResult bool "string option" string

text \<open>
  A row of the \<open>decisions\<close> table.  The ranking, feature, signal and risk payloads are
  stored as given (their JSON text).
\<close>

record DecisionRecord =
  dr_cycle_id :: string
  dr_symbol :: string
  dr_timeframe :: string
  dr_candle_close_time_utc :: string
  dr_rank_score :: "real option"
  dr_rank_components :: "string option"
  dr_strategy :: "string option"
  dr_features :: "string option"
  dr_signal :: "string option"
  dr_risk :: "string option"
  dr_order :: "OrderRequest option"
  dr_result :: "ResultJson option"
  dr_status :: DecisionStatus
  dr_idempotency_key :: string

text \<open>
  What the executor acts on: the rows of the \<open>decisions\<close> table, the orders handed to the
  broker's \<open>place_order\<close> (one entry per invocation), the sleeps taken and the log lines.
  The store is taken to work: the only statement that fails is an INSERT that meets the
  UNIQUE constraint on \<open>idempotency_key\<close> (persistence/migrations.py).
\<close>

record World =
  decisions :: "DecisionRecord list"
  placed :: "OrderRequest list"
  slept :: "real list"
  logged :: "string list"

text \<open>
  The broker during one call of the executor: what \<open>account_info()\<close> gives, what the
  \<open>n\<close>-th \<open>place_order\<close> ever made gives for a request, what \<open>list_positions()\<close> gives.
\<close>

record Broker =
  account_info_answer :: "exn + AccountInfo option"
  place_order_answer :: "nat \<Rightarrow> OrderRequest \<Rightarrow> exn + OrderResult"
  list_positions_answer :: "exn + Position list"

definition has_key :: "string \<Rightarrow> World \<Rightarrow> bool" where
  "has_key key w = list_ex (\<lambda>r. dr_idempotency_key r = key) (decisions w)"

text \<open>\<open>DecisionRepo.try_insert\<close>: the IntegrityError of a duplicate key is answered by False.\<close>

definition try_insert :: "DecisionRecord \<Rightarrow> World \<Rightarrow> bool \<times> World" where
  "try_insert row w =
     (if has_key (dr_idempotency_key row) w then (False, w)
      else (True, w\<lparr>decisions := decisions w @ [row]\<rparr>))"

text \<open>\<open>UPDATE decisions SET status=?, result_json=? WHERE idempotency_key=?\<close>\<close>

definition update_decision :: "string \<Rightarrow> DecisionStatus \<Rightarrow> ResultJson \<Rightarrow> World \<Rightarrow> World" where
  "update_decision key status result w =
     w\<lparr>decisions :=
         map (\<lambda>r. if dr_idempotency_key r = key
                  then r\<lparr>dr_status := status, dr_result := Some result\<rparr> else r)
           (decisions w)\<rparr>"

section \<open>Retries (execution/retry.py)\<close>

definition exn_str :: "exn \<Rightarrow> string" where
  "exn_str e =
     (case e of
        RetryableBrokerError m \<Rightarrow> m
      | BrokerDisconnectedError m \<Rightarrow> m
      | BrokerError m \<Rightarrow> m
      | ValueError m \<Rightarrow> m
      | KeyError m \<Rightarrow> m
      | AssertionError \<Rightarrow> []
      | OtherError m \<Rightarrow> m)"

definition is_retryable :: "exn \<Rightarrow> bool" where
  "is_retryable e =
     (case e of
        RetryableBrokerError m \<Rightarrow> True
      | BrokerDisconnectedError m \<Rightarrow> True
      | _ \<Rightarrow> False)"

definition backoff_delay :: "real list \<Rightarrow> int \<Rightarrow> real" where
  "backoff_delay backoff attempt =
     (if backoff = [] then 1
      else backoff ! nat (min (attempt - 1) (int (length backoff) - 1)))"

definition sleep :: "real \<Rightarrow> World \<Rightarrow> World" where
  "sleep d w = w\<lparr>slept := slept w @ [d]\<rparr>"

text \<open>
  The loop of \<open>call_with_retries\<close> over the remaining attempt numbers; leaving the loop
  raises the last retryable error, or fails the assertion when there was none.
\<close>

fun retry_attempts ::
  "(World \<Rightarrow> (exn + 'a) \<times> World) \<Rightarrow> int \<Rightarrow> real list \<Rightarrow> int list \<Rightarrow> exn option \<Rightarrow> World
     \<Rightarrow> (exn + 'a) \<times> World" where
  "retry_attempts fn max_attempts backoff [] last_exc w =
     (Inl (case last_exc of None \<Rightarrow> AssertionError | Some e \<Rightarrow> e), w)"
| "retry_attempts fn max_attempts backoff (attempt # rest) last_exc w =
     (let r = fn w
      in (case fst r of
            Inr v \<Rightarrow> (Inr v, snd r)
          | Inl e \<Rightarrow>
              if is_retryable e
              then (if attempt \<ge> max_attempts then (Inl e, snd r)
                    else retry_attempts fn max_attempts backoff rest (Some e)
                           (sleep (backoff_delay backoff attempt) (snd r)))
              else (Inl e, snd r)))"

definition call_with_retries ::
  "(World \<Rightarrow> (exn + 'a) \<times> World) \<Rightarrow> int \<Rightarrow> real list \<Rightarrow> World \<Rightarrow> (exn + 'a) \<times> World" where
  "call_with_retries fn max_attempts backoff w =
     retry_attempts fn max_attempts backoff [1..max_attempts] None w"

section \<open>Trade executor (execution/executor.py, execution/models.py)\<close>

record ExecutionReport =
  xr_action :: string
  xr_success :: bool
  xr_reason :: string
  xr_order :: "OrderRequest option"
  xr_result :: "string option"

text \<open>The keyword arguments that \<open>open_trade\<close> and \<open>close_trade\<close> share.\<close>

record TradeArgs =
  ta_cycle_id :: string
  ta_symbol :: string
  ta_timeframe :: string
  ta_candle_close_time_utc :: string
  ta_strategy :: string
  ta_volume :: real
  ta_idempotency_key :: string
  ta_rank_score :: "real option"
  ta_rank_components :: "string option"
  ta_features :: "string option"
  ta_signal :: "string option"
  ta_risk :: "string option"

text \<open>\<open>_send\<close>: one invocation of the broker's \<open>place_order\<close>.\<close>

definition send :: "Broker \<Rightarrow> OrderRequest \<Rightarrow> World \<Rightarrow> (exn + OrderResult) \<times> World" where
  "send b req w = (place_order_answer b (length (placed w)) req, w\<lparr>placed := placed w @ [req]\<rparr>)"

text \<open>The paper-only gate: the trade mode that is refused, if any.\<close>

definition refused_mode :: "AccountInfo option \<Rightarrow> AccountTradeMode option" where
  "refused_mode ai =
     (case ai of
        None \<Rightarrow> None
      | Some a \<Rightarrow> if ai_trade_mode a \<notin> {DEMO, CONTEST} then Some (ai_trade_mode a) else None)"

definition skipped_row :: "TradeArgs \<Rightarrow> OrderRequest \<Rightarrow> DecisionRecord" where
  "skipped_row a order_req =
     \<lparr>dr_cycle_id = ta_cycle_id a, dr_symbol = ta_symbol a, dr_timeframe = ta_timeframe a,
      dr_candle_close_time_utc = ta_candle_close_time_utc a, dr_rank_score = ta_rank_score a,
      dr_rank_components = ta_rank_components a, dr_strategy = Some (ta_strategy a),
      dr_features = ta_features a, dr_signal = ta_signal a, dr_risk = ta_risk a,
      dr_order = Some order_req, dr_result = None, dr_status = Skipped,
      dr_idempotency_key = ta_idempotency_key a\<rparr>"

definition retcode_str :: "Fmt \<Rightarrow> int option \<Rightarrow> string" where
  "retcode_str fmt rc = (case rc of None \<Rightarrow> ''None'' | Some n \<Rightarrow> fmt_int fmt n)"

definition verify_open :: "AppConfig \<Rightarrow> Broker \<Rightarrow> string \<Rightarrow> World \<Rightarrow> World" where
  "verify_open cfg b symbol w =
     (let w1 = sleep (3 / 10) w
      in (case list_positions_answer b of
            Inl e \<Rightarrow> w1\<lparr>logged := logged w1 @ [''post-trade verification failed'']\<rparr>
          | Inr positions \<Rightarrow>
              if list_ex (\<lambda>p. p_symbol p = symbol \<and>
                      (p_magic p = None \<or> p_magic p = Some (magic_number (execution cfg))))
                   positions
              then w1
              else w1\<lparr>logged := logged w1 @ [''post-trade verification: position not found'']\<rparr>))"

definition verify_closed :: "Broker \<Rightarrow> int \<Rightarrow> World \<Rightarrow> World" where
  "verify_closed b position_id w =
     (let w1 = sleep (3 / 10) w
      in (case list_positions_answer b of
            Inl e \<Rightarrow> w1\<lparr>logged := logged w1 @ [''post-close verification failed'']\<rparr>
          | Inr positions \<Rightarrow>
              if list_ex (\<lambda>p. p_position_id p = position_id) positions
              then w1\<lparr>logged := logged w1 @ [''post-trade verification: position still present'']\<rparr>
              else w1))"

definition report :: "string \<Rightarrow> bool \<Rightarrow> string \<Rightarrow> OrderRequest option \<Rightarrow> string option \<Rightarrow> ExecutionReport" where
  "report action success why order result =
     \<lparr>xr_action = action, xr_success = success, xr_reason = why, xr_order = order,
      xr_result = result\<rparr>"

text \<open>The \<open>OrderRequest\<close> that \<open>open_trade\<close> builds, and the one \<open>close_trade\<close> builds.\<close>

definition open_order ::
  "AppConfig \<Rightarrow> TradeArgs \<Rightarrow> Side \<Rightarrow> real option \<Rightarrow> real option \<Rightarrow> OrderRequest" where
  "open_order cfg a side sl_price tp_price =
     \<lparr>or_symbol = ta_symbol a, or_side = side, or_volume = ta_volume a,
      or_sl = sl_price, or_tp = tp_price,
      or_deviation_points = slippage_points (execution cfg),
      or_magic = magic_number (execution cfg),
      or_comment = ''tb:'' @ take 12 (ta_idempotency_key a),
      or_idempotency_key = ta_idempotency_key a, or_position_id = None\<rparr>"

definition close_order :: "AppConfig \<Rightarrow> TradeArgs \<Rightarrow> int \<Rightarrow> Side \<Rightarrow> OrderRequest" where
  "close_order cfg a position_id close_side =
     \<lparr>or_symbol = ta_symbol a, or_side = close_side, or_volume = ta_volume a,
      or_sl = None, or_tp = None,
      or_deviation_points = slippage_points (execution cfg),
      or_magic = magic_number (execution cfg),
      or_comment = ''tb:'' @ take 12 (ta_idempotency_key a),
      or_idempotency_key = ta_idempotency_key a, or_position_id = Some position_id\<rparr>"

text \<open>
  \<open>open_trade\<close>.  (The arguments \<open>quote_bid\<close> and \<open>quote_ask\<close> of the source are not read.)
  The result is the report, or the exception that \<open>account_info()\<close> raised.
\<close>

definition open_trade ::
  "AppConfig \<Rightarrow> Fmt \<Rightarrow> Broker \<Rightarrow> TradeArgs \<Rightarrow> Side \<Rightarrow> real option \<Rightarrow> real option \<Rightarrow> World
     \<Rightarrow> (exn + ExecutionReport) \<times> World" where
  "open_trade cfg fmt b a side sl_price tp_price w =
     (if \<not> trading_enabled (execution cfg)
      then (Inr (report ''open'' False ''trading disabled'' None None), w)
      else
        (case account_info_answer b of
           Inl e \<Rightarrow> (Inl e, w)
         | Inr ai \<Rightarrow>
             (case refused_mode ai of
                Some m \<Rightarrow>
                  (Inr (report ''open'' False
                          (''paper-only gate: trade_mode='' @ fmt_trade_mode fmt m) None None), w)
              | None \<Rightarrow>
                  let key = ta_idempotency_key a;
                      order_req = open_order cfg a side sl_price tp_price;
                      ins = try_insert (skipped_row a order_req) w
                  in if \<not> fst ins
                     then (Inr (report ''open'' False ''duplicate idempotency key'' None None),
                           snd ins)
                     else
                       let sent = call_with_retries (send b order_req)
                                    (retries_max_attempts (execution cfg))
                                    (retries_backoff_seconds (execution cfg)) (snd ins)
                       in (case fst sent of
                             Inl exc \<Rightarrow>
                               (Inr (report ''open'' False (exn_str exc) (Some order_req) None),
                                update_decision key Error (ErrorResult (exn_str exc) None)
                                  (snd sent))
                           | Inr res \<Rightarrow>
                               if \<not> res_success res
                               then (Inr (report ''open'' False
                                            (''retcode='' @ retcode_str fmt (res_retcode res))
                                            (Some order_req) (Some (res_raw res))),
                                     update_decision key Error
                                       (OutcomeResult False None (res_raw res)) (snd sent))
                               else (Inr (report ''open'' True ''opened'' (Some order_req)
                                            (Some (res_raw res))),
                                     verify_open cfg b (ta_symbol a)
                                       (update_decision key Opened
                                          (OutcomeResult True None (res_raw res)) (snd sent)))))))"

definition close_trade ::
  "AppConfig \<Rightarrow> Fmt \<Rightarrow> Broker \<Rightarrow> TradeArgs \<Rightarrow> int \<Rightarrow> Side \<Rightarrow> string \<Rightarrow> World
     \<Rightarrow> (exn + ExecutionReport) \<times> World" where
  "close_trade cfg fmt b a position_id close_side why w =
     (if \<not> trading_enabled (execution cfg)
      then (Inr (report ''close'' False ''trading disabled'' None None), w)
      else
        (case account_info_answer b of
           Inl e \<Rightarrow> (Inl e, w)
         | Inr ai \<Rightarrow>
             (case refused_mode ai of
                Some m \<Rightarrow>
                  (Inr (report ''close'' False
                          (''paper-only gate: trade_mode='' @ fmt_trade_mode fmt m) None None), w)
              | None \<Rightarrow>
                  let key = ta_idempotency_key a;
                      order_req = close_order cfg a position_id close_side;
                      ins = try_insert (skipped_row a order_req) w
                  in if \<not> fst ins
                     then (Inr (report ''close'' False ''duplicate idempotency key'' None None),
                           snd ins)
                     else
                       let sent = call_with_retries (send b order_req)
                                    (retries_max_attempts (execution cfg))
                                    (retries_backoff_seconds (execution cfg)) (snd ins)
                       in (case fst sent of
                             Inl exc \<Rightarrow>
                               (Inr (report ''close'' False (exn_str exc) (Some order_req) None),
                                update_decision key Error (ErrorResult (exn_str exc) (Some why))
                                  (snd sent))
                           | Inr res \<Rightarrow>
                               if \<not> res_success res
                               then (Inr (report ''close'' False
                                            (''retcode='' @ retcode_str fmt (res_retcode res))
                                            (Some order_req) (Some (res_raw res))),
                                     update_decision key Error
                                       (OutcomeResult False (Some why) (res_raw res)) (snd sent))
                               else (Inr (report ''close'' True ''closed'' (Some order_req)
                                            (Some (res_raw res))),
                                     verify_closed b position_id
                                       (update_decision key Closed
                                          (OutcomeResult True (Some why) (res_raw res))
                                          (snd sent)))))))"

text \<open>A call of the executor: \<open>open_trade\<close> or \<open>close_trade\<close> with its arguments.\<close>

datatype TradeCall =
    OpenTrade TradeArgs Side "real option" "real option"
  | CloseTrade TradeArgs int Side string

definition execute ::
  "AppConfig \<Rightarrow> Fmt \<Rightarrow> Broker \<Rightarrow> TradeCall \<Rightarrow> World \<Rightarrow> (exn + ExecutionReport) \<times> World" where
  "execute cfg fmt b c w =
     (case c of
        OpenTrade a side sl_price tp_price \<Rightarrow> open_trade cfg fmt b a side sl_price tp_price w
      | CloseTrade a position_id close_side why \<Rightarrow>
          close_trade cfg fmt b a position_id close_side why w)"

definition call_key :: "TradeCall \<Rightarrow> string" where
  "call_key c =
     (case c of
        OpenTrade a side sl_price tp_price \<Rightarrow> ta_idempotency_key a
      | CloseTrade a position_id close_side why \<Rightarrow> ta_idempotency_key a)"

definition call_action :: "TradeCall \<Rightarrow> string" where
  "call_action c =
     (case c of
        OpenTrade a side sl_price tp_price \<Rightarrow> ''open''
      | CloseTrade a position_id close_side why \<Rightarrow> ''close'')"

definition call_order :: "AppConfig \<Rightarrow> TradeCall \<Rightarrow> OrderRequest" where
  "call_order cfg c =
     (case c of
        OpenTrade a side sl_price tp_price \<Rightarrow> open_order cfg a side sl_price tp_price
      | CloseTrade a position_id close_side why \<Rightarrow> close_order cfg a position_id close_side)"

definition done_status :: "TradeCall \<Rightarrow> DecisionStatus" where
  "done_status c =
     (case c of
        OpenTrade a side sl_price tp_price \<Rightarrow> Opened
      | CloseTrade a position_id close_side why \<Rightarrow> Closed)"


section \<open>Correlation filter (ranking/correlation.py)\<close>










text \<open>The inner loop: the first admitted symbol that the candidate correlates too much with.\<close>

fun first_conflict :: "(string \<Rightarrow> string \<Rightarrow> real) \<Rightarrow> real \<Rightarrow> string \<Rightarrow> string list \<Rightarrow> string option" where
  "first_conflict corr max_abs_corr s [] = None"
| "first_conflict corr max_abs_corr s (s2 # rest) =
     (if \<bar>corr s s2\<bar> > max_abs_corr then Some s2
      else first_conflict corr max_abs_corr s rest)"

definition conflict_reason :: "Fmt \<Rightarrow> (string \<Rightarrow> string \<Rightarrow> real) \<Rightarrow> real \<Rightarrow> string \<Rightarrow> string \<Rightarrow> string" where
  "conflict_reason fmt corr max_abs_corr s s2 =
     ''|corr('' @ s @ '','' @ s2 @ '')|='' @ fmt_f2 fmt \<bar>corr s s2\<bar> @ '' > ''
       @ fmt_f2 fmt max_abs_corr"

text \<open>The first loop over the ranked symbols, on the pair of \<open>selected\<close> and \<open>excluded\<close>.\<close>

fun admit_loop ::
  "Fmt \<Rightarrow> (string \<Rightarrow> string \<Rightarrow> real) \<Rightarrow> real \<Rightarrow> int \<Rightarrow> string list
     \<Rightarrow> string list \<times> (string \<rightharpoonup> string) \<Rightarrow> string list \<times> (string \<rightharpoonup> string)" where
  "admit_loop fmt corr max_abs_corr top_n [] acc = acc"
| "admit_loop fmt corr max_abs_corr top_n (s # rest) acc =
     (if int (length (fst acc)) \<ge> top_n then acc
      else (case first_conflict corr max_abs_corr s (fst acc) of
              Some s2 \<Rightarrow>
                admit_loop fmt corr max_abs_corr top_n rest
                  (fst acc, (snd acc)(s \<mapsto> conflict_reason fmt corr max_abs_corr s s2))
            | None \<Rightarrow>
                admit_loop fmt corr max_abs_corr top_n rest (fst acc @ [s], snd acc)))"




section \<open>Robust min-max scaling (ranking/normalizer.py)\<close>

text \<open>
  Here the non-finite values matter, so an array entry is a finite real, an infinity or
  NaN; arithmetic on the finite part is exact.
\<close>

datatype npfloat = Fin real | PInf | NInf | NaN

definition finite_values :: "npfloat list \<Rightarrow> real list" where
  "finite_values v = concat (map (\<lambda>x. case x of Fin r \<Rightarrow> [r] | _ \<Rightarrow> []) v)"

text \<open>\<open>np.min\<close> and \<open>np.max\<close> of a non-empty array of finite values.\<close>

definition list_min :: "real list \<Rightarrow> real" where
  "list_min xs = fold min (tl xs) (hd xs)"

definition list_max :: "real list \<Rightarrow> real" where
  "list_max xs = fold max (tl xs) (hd xs)"

text \<open>
  \<open>np.median\<close> and \<open>np.quantile\<close> (method \<open>linear\<close>) of a non-empty array: the middle of
  the sorted values, and the interpolation between the two sorted values around the
  position \<open>q * (n - 1)\<close>.
\<close>

definition median :: "real list \<Rightarrow> real" where
  "median xs =
     (let s = sort xs; n = length s
      in if odd n then s ! (n div 2) else (s ! (n div 2 - 1) + s ! (n div 2)) / 2)"

definition quantile :: "real list \<Rightarrow> real \<Rightarrow> real" where
  "quantile xs q =
     (let s = sort xs; n = length s;
          h = q * real (n - 1);
          lo = nat \<lfloor>h\<rfloor>;
          hi = min (lo + 1) (n - 1)
      in s ! lo + (s ! hi - s ! lo) * (h - real lo))"

text \<open>
  Elementwise \<open>x - m\<close> and \<open>x / d\<close> for a finite \<open>m\<close> and a finite \<open>d\<close> (which is never zero
  where the function divides), and \<open>np.clip\<close> to finite bounds.
\<close>

definition np_sub :: "npfloat \<Rightarrow> real \<Rightarrow> npfloat" where
  "np_sub x m = (case x of Fin r \<Rightarrow> Fin (r - m) | PInf \<Rightarrow> PInf | NInf \<Rightarrow> NInf | NaN \<Rightarrow> NaN)"

definition np_div :: "npfloat \<Rightarrow> real \<Rightarrow> npfloat" where
  "np_div x d =
     (case x of
        Fin r \<Rightarrow> Fin (r / d)
      | PInf \<Rightarrow> if d < 0 then NInf else PInf
      | NInf \<Rightarrow> if d < 0 then PInf else NInf
      | NaN \<Rightarrow> NaN)"

definition np_clip :: "real \<Rightarrow> real \<Rightarrow> npfloat \<Rightarrow> npfloat" where
  "np_clip lo hi x =
     (case x of
        Fin r \<Rightarrow> Fin (min (max r lo) hi)
      | PInf \<Rightarrow> Fin hi
      | NInf \<Rightarrow> Fin (min lo hi)
      | NaN \<Rightarrow> NaN)"

definition eps12 :: real where
  "eps12 = 1 / 10 ^ 12"

definition robust_minmax :: "npfloat list \<Rightarrow> npfloat list" where
  "robust_minmax v =
     (let finite = finite_values v
      in if finite = [] then map (\<lambda>x. NaN) v
         else
           let med = median finite;
               q1 = quantile finite (1 / 4);
               q3 = quantile finite (3 / 4);
               iqr = q3 - q1
           in if iqr \<le> eps12
              then
                let mn = list_min finite; mx = list_max finite
                in if \<bar>mx - mn\<bar> \<le> eps12 then map (\<lambda>x. Fin (1 / 2)) v
                   else map (\<lambda>x. np_div (np_sub x mn) (mx - mn)) v
              else
                let lo = med - 3 * iqr;
                    hi = med + 3 * iqr;
                    clipped = map (np_clip lo hi) v;
                    mn = list_min (finite_values clipped);
                    mx = list_max (finite_values clipped)
                in if \<bar>mx - mn\<bar> \<le> eps12 then map (\<lambda>x. Fin (1 / 2)) v
                   else map (\<lambda>x. np_div (np_sub x mn) (mx - mn)) clipped)"


section \<open>Properties and sample inputs\<close>

text \<open>
  The raw risk-based volume that \<open>compute_volume\<close> starts from:
  \<open>risk_money / (stop_points * money_per_point)\<close> with
  \<open>money_per_point = tick_value * point / tick_size\<close>.
\<close>

definition money_per_point_of :: "FloatOps \<Rightarrow> SymbolMeta \<Rightarrow> real" where
  "money_per_point_of ops symbol =
     fl_div ops
       (fl_mul ops (float_or_zero (sm_trade_tick_value symbol)) (float_or_zero (sm_point symbol)))
       (float_or_zero (sm_trade_tick_size symbol))"

definition raw_volume :: "FloatOps \<Rightarrow> real \<Rightarrow> real \<Rightarrow> real \<Rightarrow> SymbolMeta \<Rightarrow> real" where
  "raw_volume ops equity rpt stop_points symbol =
     fl_div ops (fl_mul ops equity rpt) (fl_mul ops stop_points (money_per_point_of ops symbol))"

text \<open>
  \<open>a\<close> is \<open>b\<close> within the relative error \<open>u\<close> (for one correctly rounded binary64
  operation on normal numbers, \<open>u = 2^-53\<close>); and the distance from \<open>v\<close> to the nearest
  integer multiple of \<open>step\<close>.
\<close>

definition rel_close :: "real \<Rightarrow> real \<Rightarrow> real \<Rightarrow> bool" where
  "rel_close u a b = (\<bar>a - b\<bar> \<le> u * \<bar>b\<bar>)"

definition grid_distance :: "real \<Rightarrow> real \<Rightarrow> real" where
  "grid_distance v step =
     (let k = \<lfloor>v / step\<rfloor> in min (v - of_int k * step) (of_int (k + 1) * step - v))"

definition u64 :: real where
  "u64 = 1 / 2 ^ 53"

text \<open>
  \<open>b64 m e\<close> is the binary64 number \<open>m * 2^-e\<close>.  \<open>pinned_ops\<close> is an arithmetic that
  returns the listed results at the listed operands and is exact elsewhere;
  \<open>binary64_sample\<close> lists what binary64 returns where it rounds in the sample runs below:
  \<open>1000 * 0.005 = 5.0\<close>, \<open>100000 * 0.005 = 500.0\<close>, \<open>35 * 0.01 = 0.35000000000000003\<close>,
  \<open>5.0 / 100.0 = 0.05\<close>, \<open>0.35 / 0.01 = 35.0\<close>, \<open>0.15 / 0.1 = 1.4999999999999998\<close>.
  Every other operation of those runs is exact in binary64.
\<close>

definition b64 :: "int \<Rightarrow> nat \<Rightarrow> real" where
  "b64 m e = of_int m / 2 ^ e"

definition pinned_ops ::
  "((real \<times> real) \<times> real) list \<Rightarrow> ((real \<times> real) \<times> real) list \<Rightarrow> FloatOps" where
  "pinned_ops muls divs =
     \<lparr>fl_add = (+), fl_sub = (-),
      fl_mul = (\<lambda>x y. case map_of muls (x, y) of Some z \<Rightarrow> z | None \<Rightarrow> x * y),
      fl_div = (\<lambda>x y. case map_of divs (x, y) of Some z \<Rightarrow> z | None \<Rightarrow> x / y)\<rparr>"

definition binary64_sample :: FloatOps where
  "binary64_sample =
     pinned_ops
       [((1000, b64 5764607523034235 60), 5),
        ((100000, b64 5764607523034235 60), 500),
        ((35, b64 5764607523034235 59), b64 6305039478318695 54)]
       [((5, 100), b64 3602879701896397 56),
        ((b64 6305039478318694 54, b64 5764607523034235 59), 35),
        ((b64 5404319552844595 55, b64 3602879701896397 55), b64 6755399441055743 52)]"

text \<open>\<open>AppConfig()\<close>: the defaults of core/config.py.\<close>

definition default_config :: AppConfig where
  "default_config =
     \<lparr>risk = \<lparr>risk_per_trade = 5 / 1000, max_daily_loss_pct = 2 / 100,
               max_drawdown_pct = 6 / 100, max_open_positions_total = 5,
               max_open_positions_per_symbol = 1, sltp_mode = RR,
               rr_stop_points = 100, rr_take_points = 200,
               atr_sl_mult = 3 / 2, atr_tp_mult = 3,
               cooloff_enabled = True, cooloff_losses = 3, cooloff_minutes = 120\<rparr>,
      execution = \<lparr>trading_enabled = False, slippage_points = 20,
                    magic_number = 26012026, retries_max_attempts = 3,
                    retries_backoff_seconds = [1, 3, 7]\<rparr>\<rparr>"

text \<open>A rendering for the sample runs.\<close>

definition plain_fmt :: Fmt where
  "plain_fmt = \<lparr>fmt_pct2 = (\<lambda>_. ''%''), fmt_f2 = (\<lambda>_. ''0.00''), fmt_int = (\<lambda>_. ''0''),
                 fmt_iso = (\<lambda>_. ''T''),
                 fmt_trade_mode = (\<lambda>m. case m of DEMO \<Rightarrow> ''DEMO'' | REAL \<Rightarrow> ''REAL''
                                        | CONTEST \<Rightarrow> ''CONTEST'' | UNKNOWN \<Rightarrow> ''UNKNOWN'')\<rparr>"

text \<open>\<open>_symbol_meta()\<close> of tests/test_risk.py.\<close>

definition test_symbol_meta :: SymbolMeta where
  "test_symbol_meta =
     \<lparr>sm_name = ''EURUSD'', sm_point = Some (1 / 100000), sm_volume_min = Some (1 / 100),
      sm_volume_max = Some 100, sm_volume_step = Some (1 / 100),
      sm_trade_tick_value = Some 1, sm_trade_tick_size = Some (1 / 100000)\<rparr>"

text \<open>
  The metadata of the test with the binary64 values of its decimal literals
  (\<open>point = tick_size = 1e-05\<close>, \<open>volume_min = volume_step = 0.01\<close>); the same with
  \<open>volume_max = 0.35\<close>; with \<open>volume_min = 0.15\<close> off the grid of \<open>volume_step = 0.1\<close>; and
  with the limits crossed (\<open>volume_min = 2\<close>, \<open>volume_max = 1\<close>, \<open>volume_step = 1\<close>).
\<close>

definition b64_meta :: SymbolMeta where
  "b64_meta =
     \<lparr>sm_name = ''EURUSD'', sm_point = Some (b64 5902958103587057 69),
      sm_volume_min = Some (b64 5764607523034235 59), sm_volume_max = Some 100,
      sm_volume_step = Some (b64 5764607523034235 59),
      sm_trade_tick_value = Some 1, sm_trade_tick_size = Some (b64 5902958103587057 69)\<rparr>"

definition capped_meta :: SymbolMeta where
  "capped_meta = b64_meta\<lparr>sm_volume_max := Some (b64 6305039478318694 54)\<rparr>"

definition odd_min_meta :: SymbolMeta where
  "odd_min_meta =
     b64_meta\<lparr>sm_volume_min := Some (b64 5404319552844595 55),
              sm_volume_step := Some (b64 3602879701896397 55)\<rparr>"

definition crossed_meta :: SymbolMeta where
  "crossed_meta =
     b64_meta\<lparr>sm_volume_min := Some 2, sm_volume_max := Some 1, sm_volume_step := Some 1\<rparr>"

text \<open>A position and a losing close with a foreign magic number, and the same without any.\<close>

definition foreign_position :: Position where
  "foreign_position = \<lparr>p_position_id = 7, p_symbol = ''EURUSD'', p_side = LONG,
     p_volume = 1 / 100, p_magic = Some 111\<rparr>"

definition unmarked_position :: Position where
  "unmarked_position = foreign_position\<lparr>p_magic := None\<rparr>"

definition foreign_loss :: Deal where
  "foreign_loss = \<lparr>d_entry = ''OUT'', d_profit = Some (- 5), d_magic = Some 111\<rparr>"

definition unmarked_loss :: Deal where
  "unmarked_loss = foreign_loss\<lparr>d_magic := None\<rparr>"


text \<open>
  The tracked equities of a risk state are unset or positive.  \<open>RiskState()\<close> satisfies
  this and \<open>update_equity_state\<close> keeps it: it only ever stores a positive equity.
\<close>

definition tracked_ok :: "RiskState \<Rightarrow> bool" where
  "tracked_ok st =
     ((case daily_start_equity st of None \<Rightarrow> True | Some s \<Rightarrow> 0 < s) \<and>
      (case peak_equity st of None \<Rightarrow> True | Some p \<Rightarrow> 0 < p))"

text \<open>
  The equity update as the specification words it: \<open>drawdown_pct = max(0, (peak-equity)/peak)\<close>,
  \<open>daily_loss_pct = max(0, (start-equity)/start)\<close>, pause on a daily loss at or above the
  limit, on a drawdown at or above the limit, or before the end of the cooloff.  A quantity
  whose inputs are not there (no account equity, no tracked start or peak) triggers nothing.
\<close>

definition spec_drawdown_pct :: "real \<Rightarrow> real \<Rightarrow> real" where
  "spec_drawdown_pct peak equity = max 0 ((peak - equity) / peak)"

definition spec_daily_loss_pct :: "real \<Rightarrow> real \<Rightarrow> real" where
  "spec_daily_loss_pct start equity = max 0 ((start - equity) / start)"

definition spec_dl :: "real option \<Rightarrow> RiskState \<Rightarrow> real option" where
  "spec_dl equity st =
     (case equity of
        None \<Rightarrow> None
      | Some e \<Rightarrow> map_option (\<lambda>s. spec_daily_loss_pct s e) (daily_start_equity st))"

definition spec_dd :: "real option \<Rightarrow> RiskState \<Rightarrow> real option" where
  "spec_dd equity st =
     (case equity of
        None \<Rightarrow> None
      | Some e \<Rightarrow> map_option (\<lambda>p. spec_drawdown_pct p e) (peak_equity st))"

definition reaches :: "real option \<Rightarrow> real \<Rightarrow> bool" where
  "reaches x limit = (case x of None \<Rightarrow> False | Some v \<Rightarrow> limit \<le> v)"

definition spec_in_cooloff :: "int \<Rightarrow> RiskState \<Rightarrow> bool" where
  "spec_in_cooloff now st = (case cooloff_until_utc st of None \<Rightarrow> False | Some c \<Rightarrow> now < c)"

definition spec_should_pause :: "AppConfig \<Rightarrow> int \<Rightarrow> real option \<Rightarrow> RiskState \<Rightarrow> bool" where
  "spec_should_pause cfg now equity st =
     (reaches (spec_dl equity st) (max_daily_loss_pct (risk cfg))
      \<or> reaches (spec_dd equity st) (max_drawdown_pct (risk cfg))
      \<or> spec_in_cooloff now st)"

definition spec_pause_reason ::
  "AppConfig \<Rightarrow> Fmt \<Rightarrow> int \<Rightarrow> real option \<Rightarrow> RiskState \<Rightarrow> string option" where
  "spec_pause_reason cfg fmt now equity st =
     (if spec_in_cooloff now st
      then map_option (\<lambda>c. ''cooloff until '' @ fmt_iso fmt c) (cooloff_until_utc st)
      else if reaches (spec_dd equity st) (max_drawdown_pct (risk cfg))
      then map_option
             (\<lambda>x. ''max drawdown breached ('' @ fmt_pct2 fmt x @ '' >= ''
                    @ fmt_pct2 fmt (max_drawdown_pct (risk cfg)) @ '')'')
             (spec_dd equity st)
      else if reaches (spec_dl equity st) (max_daily_loss_pct (risk cfg))
      then map_option
             (\<lambda>x. ''max daily loss breached ('' @ fmt_pct2 fmt x @ '' >= ''
                    @ fmt_pct2 fmt (max_daily_loss_pct (risk cfg)) @ '')'')
             (spec_dl equity st)
      else None)"

text \<open>The demo account of tests/test_risk.py, at a given equity.\<close>

definition demo_account :: "real \<Rightarrow> AccountInfo" where
  "demo_account e = \<lparr>ai_balance = Some 1000, ai_equity = Some e, ai_trade_mode = DEMO\<rparr>"

definition day1 :: string where "day1 = ''2026-01-01''"


text \<open>One \<open>update_equity_state\<close> call per element: the clock reading, the account, the local date.\<close>

fun equity_updates ::
  "AppConfig \<Rightarrow> Fmt \<Rightarrow> RiskState \<Rightarrow> (int \<times> AccountInfo option \<times> string) list \<Rightarrow> RiskState" where
  "equity_updates cfg fmt st [] = st"
| "equity_updates cfg fmt st (c # cs) =
     equity_updates cfg fmt
       (snd (update_equity_state cfg fmt (fst c) (fst (snd c)) (snd (snd c)) st)) cs"

text \<open>
  Comparing a peak that may be unset: \<open>peak_at_least pk e\<close> says that a peak is recorded and
  is at least \<open>e\<close>; \<open>peak_not_below new old\<close> says that \<open>new\<close> has not fallen behind \<open>old\<close>
  (an unset \<open>old\<close> is behind everything).
\<close>

definition peak_at_least :: "real option \<Rightarrow> real \<Rightarrow> bool" where
  "peak_at_least pk e = (case pk of None \<Rightarrow> False | Some p \<Rightarrow> e \<le> p)"

definition peak_not_below :: "real option \<Rightarrow> real option \<Rightarrow> bool" where
  "peak_not_below new old = (case old of None \<Rightarrow> True | Some p \<Rightarrow> peak_at_least new p)"

definition sample_calls :: "(int \<times> AccountInfo option \<times> string) list" where
  "sample_calls = [(0, Some (demo_account 1000), day1), (1, Some (demo_account 970), day1)]"


text \<open>An hourly scheduler that has returned nothing yet, and three answers of the connector.\<close>

definition hourly :: CandleCloseScheduler where
  "hourly = \<lparr>timeframe = ''H1'', last_candle_close_time_utc = None\<rparr>"

definition sample_frames :: "(exn + int list option) list" where
  "sample_frames =
     [Inr (Some [0, 3600000000, 7200000000]),
      Inr (Some [0, 3600000000, 7200000000]),
      Inr (Some [3600000000, 7200000000, 10800000000])]"

text \<open>
  The executor's gates let a call through: trading is enabled and \<open>account_info()\<close>
  returns no account or one in DEMO or CONTEST mode.
\<close>

definition passes_gates :: "AppConfig \<Rightarrow> Broker \<Rightarrow> bool" where
  "passes_gates cfg b =
     (trading_enabled (execution cfg) \<and>
      (case account_info_answer b of Inl e \<Rightarrow> False | Inr ai \<Rightarrow> refused_mode ai = None))"

text \<open>The rows of the store that carry a key.\<close>

definition key_rows :: "string \<Rightarrow> World \<Rightarrow> DecisionRecord list" where
  "key_rows key w = filter (\<lambda>r. dr_idempotency_key r = key) (decisions w)"

definition retryable_answer :: "exn + OrderResult \<Rightarrow> bool" where
  "retryable_answer x = (case x of Inl e \<Rightarrow> is_retryable e | Inr v \<Rightarrow> False)"

text \<open>
  Between \<open>w\<close> and \<open>w'\<close> the broker's \<open>place_order\<close> was invoked \<open>n\<close> times, each time with
  \<open>req\<close>: at most \<open>max_attempts\<close> times, at least once when \<open>max_attempts \<ge> 1\<close>, and exactly
  once when moreover the first answer is not a retryable or disconnected error.
\<close>

definition dispatched :: "Broker \<Rightarrow> OrderRequest \<Rightarrow> int \<Rightarrow> World \<Rightarrow> World \<Rightarrow> nat \<Rightarrow> bool" where
  "dispatched b req max_attempts w w' n =
     (placed w' = placed w @ replicate n req \<and> n \<le> nat max_attempts
      \<and> (1 \<le> max_attempts \<longrightarrow> 1 \<le> n)
      \<and> (1 \<le> max_attempts \<and> \<not> retryable_answer (place_order_answer b (length (placed w)) req)
           \<longrightarrow> n = 1))"

definition duplicate_report :: "TradeCall \<Rightarrow> ExecutionReport" where
  "duplicate_report c =
     \<lparr>xr_action = call_action c, xr_success = False, xr_reason = ''duplicate idempotency key'',
      xr_order = None, xr_result = None\<rparr>"

text \<open>
  Sample runs: the default configuration with trading switched on, a broker that fills
  every order, one whose first answer is a retryable error, one on a real-money account,
  and an open and a close call that carry the key of one tuple (under the digest given).
\<close>

definition live_config :: AppConfig where
  "live_config = default_config\<lparr>execution := (execution default_config)\<lparr>trading_enabled := True\<rparr>\<rparr>"

definition done_result :: OrderResult where
  "done_result = \<lparr>res_success = True, res_retcode = Some 10009, res_raw = ''{}''\<rparr>"

definition steady_broker :: Broker where
  "steady_broker =
     \<lparr>account_info_answer = Inr (Some (demo_account 1000)),
      place_order_answer = (\<lambda>n req. Inr done_result),
      list_positions_answer = Inr []\<rparr>"

definition flaky_broker :: Broker where
  "flaky_broker =
     steady_broker\<lparr>place_order_answer :=
       (\<lambda>n req. if n = 0 then Inl (RetryableBrokerError ''timeout'') else Inr done_result)\<rparr>"

definition real_broker :: Broker where
  "real_broker =
     steady_broker\<lparr>account_info_answer :=
       Inr (Some \<lparr>ai_balance = Some 1000, ai_equity = Some 1000, ai_trade_mode = REAL\<rparr>)\<rparr>"

definition sample_args :: "(string \<Rightarrow> string) \<Rightarrow> TradeArgs" where
  "sample_args sha256_hex =
     \<lparr>ta_cycle_id = ''c1'', ta_symbol = ''EURUSD'', ta_timeframe = ''H1'',
      ta_candle_close_time_utc = ''2026-01-01T00:00:00+00:00'',
      ta_strategy = ''two_pole_momentum'', ta_volume = 5 / 100,
      ta_idempotency_key =
        make_idempotency_key sha256_hex ''EURUSD'' ''H1'' ''2026-01-01T00:00:00+00:00''
          ''two_pole_momentum'' ''long'',
      ta_rank_score = None, ta_rank_components = None, ta_features = None,
      ta_signal = None, ta_risk = None\<rparr>"

definition sample_open :: TradeCall where
  "sample_open = OpenTrade (sample_args id) LONG None None"

definition sample_close :: TradeCall where
  "sample_close = CloseTrade (sample_args id) 7 SHORT ''reversal''"

definition empty_world :: World where
  "empty_world = \<lparr>decisions = [], placed = [], slept = [], logged = []\<rparr>"



text \<open>
  An output entry is acceptable at an input entry: it lies in [0,1], or it is NaN and the
  input entry is not finite.
\<close>

definition unit_or_nan :: "npfloat \<Rightarrow> npfloat \<Rightarrow> bool" where
  "unit_or_nan inp out =
     (case out of
        Fin r \<Rightarrow> 0 \<le> r \<and> r \<le> 1
      | NaN \<Rightarrow> (case inp of Fin r \<Rightarrow> False | _ \<Rightarrow> True)
      | _ \<Rightarrow> False)"

text \<open>Four equal values, a larger one and an infinity: the quartiles of the finite part coincide.\<close>

definition spiked_input :: "npfloat list" where
  "spiked_input = [Fin 1, Fin 1, Fin 1, Fin 1, Fin 2, PInf]"

section \<open>Position sizing stays inside the symbol's volume limits\<close>

lemma compute_volume_shape:
  assumes "compute_volume ops equity rpt stop_points symbol = r" and "vr_ok r"
    and "sm_volume_min symbol = Some vmin" and "0 < vmin"
    and "sm_volume_max symbol = Some vmax" and "0 < vmax"
    and "sm_volume_step symbol = Some step" and "0 < step"
  shows "vr_volume r =
           Some (let g = round_down_to_step ops
                           (min (max (raw_volume ops equity rpt stop_points symbol) vmin) vmax) step
                 in if g < vmin then vmin else g)"
  using assms
  by (auto simp: compute_volume_def volume_blocked_def Let_def float_or_zero_def raw_volume_def
        money_per_point_of_def split: if_splits)

lemma grid_point_near:
  assumes u: "0 \<le> u" "u \<le> 1" and c: "0 < c" and step: "0 < step"
    and q: "rel_close u q (c / step)" and k: "k = \<lfloor>q\<rfloor>"
  shows "0 \<le> k" and "c * (1 - u) - step < of_int k * step" and "of_int k * step \<le> c * (1 + u)"
proof -
  from c step have pos: "0 < c / step" by simp
  define d where "d = c / step"
  from pos have dpos: "0 < d" by (simp add: d_def)
  from q have "\<bar>q - d\<bar> \<le> u * \<bar>d\<bar>" by (simp add: rel_close_def d_def)
  with dpos have "q - d \<le> u * d" and "d - q \<le> u * d" by (simp_all add: abs_le_iff)
  then have "d * (1 - u) \<le> q" and "q \<le> d * (1 + u)" by (simp_all add: algebra_simps)
  then have lo: "c / step * (1 - u) \<le> q" and hi: "q \<le> c / step * (1 + u)"
    by (simp_all add: d_def)
  from u pos have "0 \<le> c / step * (1 - u)" by (intro mult_nonneg_nonneg) simp_all
  with lo have "0 \<le> q" by linarith
  then show k0: "0 \<le> k" by (simp add: k)
  have kq: "of_int k \<le> q" and qk: "q < of_int k + 1" by (simp_all add: k)
  from kq hi have "of_int k \<le> c / step * (1 + u)" by linarith
  then show "of_int k * step \<le> c * (1 + u)" using step by (simp add: field_simps)
  from qk lo have "c / step * (1 - u) - 1 < of_int k" by linarith
  then show "c * (1 - u) - step < of_int k * step" using step by (simp add: field_simps)
qed

lemma compute_volume_grid:
  assumes r: "compute_volume ops equity rpt stop_points symbol = r" and ok: "vr_ok r"
    and lo: "sm_volume_min symbol = Some vmin" "0 < vmin"
    and hi: "sm_volume_max symbol = Some vmax" "0 < vmax"
    and st: "sm_volume_step symbol = Some step" "0 < step"
    and le: "vmin \<le> vmax"
    and u: "0 \<le> u" "u \<le> 1"
    and c: "c = min (max (raw_volume ops equity rpt stop_points symbol) vmin) vmax"
    and k: "k = \<lfloor>fl_div ops c step\<rfloor>"
    and q: "rel_close u (fl_div ops c step) (c / step)"
    and m: "rel_close u (fl_mul ops (of_int k) step) (of_int k * step)"
  shows "\<exists>v. vr_volume r = Some v \<and> vmin \<le> v \<and> v \<le> vmax * (1 + u) * (1 + u)
           \<and> c * (1 - u) - step < of_int k * step \<and> of_int k * step \<le> c * (1 + u)
           \<and> (if fl_mul ops (of_int k) step < vmin then v = vmin
                else rel_close u v (of_int k * step))"
proof -
  let ?g = "fl_mul ops (of_int k) step"
  have cpos: "0 < c" and cle: "c \<le> vmax" and cge: "vmin \<le> c"
    using lo(2) le by (simp_all add: c)
  note near = grid_point_near [OF u cpos st(2) q k]
  have g: "round_down_to_step ops c step = ?g"
    using st(2) by (simp add: round_down_to_step_def k)
  from compute_volume_shape [OF r ok lo hi st]
  have v: "vr_volume r = Some (if ?g < vmin then vmin else ?g)"
    by (simp add: c [symmetric] g Let_def)
  have ks: "0 \<le> of_int k * step" using near(1) st(2) by simp
  from m have "\<bar>?g - of_int k * step\<bar> \<le> u * \<bar>of_int k * step\<bar>" by (simp add: rel_close_def)
  with ks have "?g - of_int k * step \<le> u * (of_int k * step)" by (simp add: abs_le_iff)
  then have gle: "?g \<le> of_int k * step * (1 + u)" by (simp add: algebra_simps)
  have "of_int k * step * (1 + u) \<le> c * (1 + u) * (1 + u)"
    using near(3) u by (simp add: mult_right_mono)
  also have "\<dots> \<le> vmax * (1 + u) * (1 + u)"
    using cle u by (simp add: mult_right_mono)
  finally have gmax: "?g \<le> vmax * (1 + u) * (1 + u)" using gle by linarith
  have "vmax \<le> vmax * (1 + u) * (1 + u)"
  proof -
    have "1 \<le> (1 + u) * (1 + u)" using u by (simp add: algebra_simps)
    then have "vmax * 1 \<le> vmax * ((1 + u) * (1 + u))"
      using hi(2) by (intro mult_left_mono) simp_all
    then show ?thesis by (simp add: mult.assoc)
  qed
  with le have vmin_max: "vmin \<le> vmax * (1 + u) * (1 + u)" by linarith
  show ?thesis
  proof (cases "?g < vmin")
    case True
    with v vmin_max near show ?thesis by simp
  next
    case False
    with v gmax near m show ?thesis by simp
  qed
qed


text \<open>
  C6 (as amended).  Let the metadata have \<open>volume_min > 0\<close>, \<open>volume_max > 0\<close>,
  \<open>volume_step > 0\<close> and \<open>volume_min \<le> volume_max\<close>, let \<open>c\<close> be the raw risk-based volume
  clamped to \<open>[volume_min, volume_max]\<close> and \<open>k\<close> the floor of the float quotient \<open>c / step\<close>,
  and let that division and the multiplication \<open>k * step\<close> be accurate to the relative error
  \<open>u\<close> (\<open>2^-53\<close> for binary64).  Then every successful \<open>compute_volume\<close> result \<open>v\<close> satisfies
  \<open>volume_min \<le> v \<le> volume_max\<close> within that rounding (\<open>v \<le> volume_max * (1 + u)^2\<close>); the
  grid point \<open>k * step\<close> lies at most one step below \<open>c\<close> and not above it, within the
  rounding; and \<open>v\<close> is that multiple of \<open>volume_step\<close> within the relative error \<open>u\<close>, unless
  the rounded-down value falls below \<open>volume_min\<close>, in which case \<open>v\<close> is \<open>volume_min\<close> (the
  floor-clamp back to the minimum).
\<close>

theorem compute_volume_within_limits:
  assumes "compute_volume ops equity rpt stop_points symbol = r" and "vr_ok r"
    and "sm_volume_min symbol = Some vmin" and "0 < vmin"
    and "sm_volume_max symbol = Some vmax" and "0 < vmax"
    and "sm_volume_step symbol = Some step" and "0 < step"
    and "vmin \<le> vmax"
    and "0 \<le> u" and "u \<le> 1"
    and "c = min (max (raw_volume ops equity rpt stop_points symbol) vmin) vmax"
    and "k = \<lfloor>fl_div ops c step\<rfloor>"
    and "rel_close u (fl_div ops c step) (c / step)"
    and "rel_close u (fl_mul ops (of_int k) step) (of_int k * step)"
  shows "\<exists>v. vr_volume r = Some v \<and> vmin \<le> v \<and> v \<le> vmax * (1 + u) * (1 + u)
           \<and> c * (1 - u) - step < of_int k * step \<and> of_int k * step \<le> c * (1 + u)
           \<and> (if fl_mul ops (of_int k) step < vmin then v = vmin
                else rel_close u v (of_int k * step))"
  using assms by (rule compute_volume_grid)

lemma capped_run:
  "compute_volume binary64_sample 100000 (b64 5764607523034235 60) 100 capped_meta
     = \<lparr>vr_ok = True, vr_volume = Some (b64 6305039478318695 54), vr_reason = ''risk sized''\<rparr>"
  by (simp add: compute_volume_def capped_meta_def b64_meta_def float_or_zero_def
        round_down_to_step_def binary64_sample_def pinned_ops_def b64_def Let_def)

lemma capped_raw:
  "raw_volume binary64_sample 100000 (b64 5764607523034235 60) 100 capped_meta = 5"
  by (simp add: raw_volume_def money_per_point_of_def capped_meta_def b64_meta_def
        float_or_zero_def binary64_sample_def pinned_ops_def b64_def)


theorem compute_volume_within_limits_witness:
  "compute_volume binary64_sample 100000 (b64 5764607523034235 60) 100 capped_meta
     = \<lparr>vr_ok = True, vr_volume = Some (b64 6305039478318695 54), vr_reason = ''risk sized''\<rparr>
   \<and> sm_volume_min capped_meta = Some (b64 5764607523034235 59)
   \<and> sm_volume_max capped_meta = Some (b64 6305039478318694 54)
   \<and> sm_volume_step capped_meta = Some (b64 5764607523034235 59)
   \<and> b64 5764607523034235 59 \<le> b64 6305039478318694 54
   \<and> 0 \<le> u64 \<and> u64 \<le> 1
   \<and> b64 6305039478318694 54
       = min (max (raw_volume binary64_sample 100000 (b64 5764607523034235 60) 100 capped_meta)
                (b64 5764607523034235 59)) (b64 6305039478318694 54)
   \<and> (35 :: int) = \<lfloor>fl_div binary64_sample (b64 6305039478318694 54) (b64 5764607523034235 59)\<rfloor>
   \<and> rel_close u64 (fl_div binary64_sample (b64 6305039478318694 54) (b64 5764607523034235 59))
         (b64 6305039478318694 54 / b64 5764607523034235 59)
   \<and> rel_close u64 (fl_mul binary64_sample (of_int 35) (b64 5764607523034235 59))
         (of_int 35 * b64 5764607523034235 59)
   \<and> (\<exists>v. vr_volume \<lparr>vr_ok = True, vr_volume = Some (b64 6305039478318695 54),
                         vr_reason = ''risk sized''\<rparr> = Some v
          \<and> b64 5764607523034235 59 \<le> v
          \<and> v \<le> b64 6305039478318694 54 * (1 + u64) * (1 + u64)
          \<and> b64 6305039478318694 54 * (1 - u64) - b64 5764607523034235 59
               < of_int 35 * b64 5764607523034235 59
          \<and> of_int 35 * b64 5764607523034235 59 \<le> b64 6305039478318694 54 * (1 + u64)
          \<and> (if fl_mul binary64_sample (of_int 35) (b64 5764607523034235 59)
                   < b64 5764607523034235 59
               then v = b64 5764607523034235 59
               else rel_close u64 v (of_int 35 * b64 5764607523034235 59)))"
proof -
  let ?r = "\<lparr>vr_ok = True, vr_volume = Some (b64 6305039478318695 54), vr_reason = ''risk sized''\<rparr>"
  have run: "compute_volume binary64_sample 100000 (b64 5764607523034235 60) 100 capped_meta = ?r"
    by (rule capped_run)
  have ok: "vr_ok ?r" by simp
  have lo: "sm_volume_min capped_meta = Some (b64 5764607523034235 59)"
    and hi: "sm_volume_max capped_meta = Some (b64 6305039478318694 54)"
    and st: "sm_volume_step capped_meta = Some (b64 5764607523034235 59)"
    by (simp_all add: capped_meta_def b64_meta_def)
  have p1: "0 < b64 5764607523034235 59" and p2: "0 < b64 6305039478318694 54"
    and le: "b64 5764607523034235 59 \<le> b64 6305039478318694 54"
    by (simp_all add: b64_def)
  have u: "0 \<le> u64" "u64 \<le> 1" by (simp_all add: u64_def)
  have c: "b64 6305039478318694 54
       = min (max (raw_volume binary64_sample 100000 (b64 5764607523034235 60) 100 capped_meta)
                (b64 5764607523034235 59)) (b64 6305039478318694 54)"
    unfolding capped_raw by (simp add: b64_def)
  have k: "(35 :: int) = \<lfloor>fl_div binary64_sample (b64 6305039478318694 54) (b64 5764607523034235 59)\<rfloor>"
    by (simp add: binary64_sample_def pinned_ops_def b64_def)
  have q: "rel_close u64 (fl_div binary64_sample (b64 6305039478318694 54) (b64 5764607523034235 59))
         (b64 6305039478318694 54 / b64 5764607523034235 59)"
    by (simp add: binary64_sample_def pinned_ops_def b64_def rel_close_def u64_def)
  have m: "rel_close u64 (fl_mul binary64_sample (of_int 35) (b64 5764607523034235 59))
         (of_int 35 * b64 5764607523034235 59)"
    by (simp add: binary64_sample_def pinned_ops_def b64_def rel_close_def u64_def)
  from compute_volume_within_limits [OF run ok lo p1 hi p2 st p1 le u c k q m]
    run lo hi st le u c k q m
  show ?thesis by blast
qed

text \<open>
  C6 as stated fails, in binary64 arithmetic: with \<open>volume_min = 0.15\<close> and
  \<open>volume_step = 0.1\<close> the result is \<open>0.15\<close>, about 0.05 away from every multiple of the step;
  with \<open>volume_min = 2 > volume_max = 1\<close> the result is \<open>2\<close>, above the maximum; with
  \<open>volume_max = 0.35\<close> and \<open>volume_step = 0.01\<close> the result \<open>35 * 0.01\<close> is
  \<open>0.35000000000000003\<close>, one unit in the last place above the maximum.
\<close>

theorem compute_volume_counterexample:
  "compute_volume binary64_sample 1000 (b64 5764607523034235 60) 100 odd_min_meta
     = \<lparr>vr_ok = True, vr_volume = Some (b64 5404319552844595 55), vr_reason = ''risk sized''\<rparr>
   \<and> sm_volume_step odd_min_meta = Some (b64 3602879701896397 55)
   \<and> 1 / 25 < grid_distance (b64 5404319552844595 55) (b64 3602879701896397 55)
   \<and> compute_volume binary64_sample 1000 (b64 5764607523034235 60) 100 crossed_meta
     = \<lparr>vr_ok = True, vr_volume = Some 2, vr_reason = ''risk sized''\<rparr>
   \<and> sm_volume_max crossed_meta = Some 1 \<and> (1 :: real) < 2
   \<and> compute_volume binary64_sample 100000 (b64 5764607523034235 60) 100 capped_meta
     = \<lparr>vr_ok = True, vr_volume = Some (b64 6305039478318695 54), vr_reason = ''risk sized''\<rparr>
   \<and> sm_volume_max capped_meta = Some (b64 6305039478318694 54)
   \<and> b64 6305039478318694 54 < b64 6305039478318695 54"
proof -
  have a: "compute_volume binary64_sample 1000 (b64 5764607523034235 60) 100 odd_min_meta
     = \<lparr>vr_ok = True, vr_volume = Some (b64 5404319552844595 55), vr_reason = ''risk sized''\<rparr>"
    by (simp add: compute_volume_def odd_min_meta_def b64_meta_def float_or_zero_def
          round_down_to_step_def binary64_sample_def pinned_ops_def b64_def Let_def)
  have a': "1 / 25 < grid_distance (b64 5404319552844595 55) (b64 3602879701896397 55)"
    by (simp add: grid_distance_def b64_def Let_def)
  have b: "compute_volume binary64_sample 1000 (b64 5764607523034235 60) 100 crossed_meta
     = \<lparr>vr_ok = True, vr_volume = Some 2, vr_reason = ''risk sized''\<rparr>"
    by (simp add: compute_volume_def crossed_meta_def b64_meta_def float_or_zero_def
          round_down_to_step_def binary64_sample_def pinned_ops_def b64_def Let_def)
  have c: "b64 6305039478318694 54 < b64 6305039478318695 54" by (simp add: b64_def)
  from a a' b c capped_run show ?thesis
    by (simp add: odd_min_meta_def crossed_meta_def capped_meta_def b64_meta_def)
qed

text \<open>
  Without rounding the bounds and the multiple are exact.  The results pinned in
  \<open>binary64_sample\<close> for the run at \<open>volume_max = 0.35\<close> are the binary64 numbers nearest to
  the exact quotient and product: the neighbours of 35 and of \<open>0.35000000000000003\<close> on the
  other side of the exact value are farther away.
\<close>

lemma exact_ops_close:
  "rel_close 0 (fl_div exact_ops a b) (a / b)" "rel_close 0 (fl_mul exact_ops a b) (a * b)"
  by (simp_all add: rel_close_def exact_ops_def)

lemma compute_volume_exact:
  assumes "compute_volume exact_ops equity rpt stop_points symbol = r" and "vr_ok r"
    and "sm_volume_min symbol = Some vmin" and "0 < vmin"
    and "sm_volume_max symbol = Some vmax" and "0 < vmax"
    and "sm_volume_step symbol = Some step" and "0 < step"
    and "vmin \<le> vmax"
  shows "\<exists>v. vr_volume r = Some v \<and> vmin \<le> v \<and> v \<le> vmax
           \<and> (v = vmin \<or> (\<exists>k::int. v = of_int k * step))"
proof -
  define c where "c = min (max (raw_volume exact_ops equity rpt stop_points symbol) vmin) vmax"
  define k where "k = \<lfloor>fl_div exact_ops c step\<rfloor>"
  from compute_volume_grid [OF assms, of 0 c k, OF _ _ c_def k_def exact_ops_close]
  obtain v where v: "vr_volume r = Some v" "vmin \<le> v" "v \<le> vmax"
    "if fl_mul exact_ops (of_int k) step < vmin then v = vmin else rel_close 0 v (of_int k * step)"
    by auto
  from v(4) have "v = vmin \<or> v = of_int k * step"
    by (auto simp: rel_close_def split: if_splits)
  with v show ?thesis by blast
qed

lemma binary64_sample_is_nearest:
  "\<bar>35 - b64 6305039478318694 54 / b64 5764607523034235 59\<bar>
     < \<bar>(35 - 1 / 2 ^ 47) - b64 6305039478318694 54 / b64 5764607523034235 59\<bar>"
  "b64 6305039478318694 54 < 35 * b64 5764607523034235 59"
  "35 * b64 5764607523034235 59 < b64 6305039478318695 54"
  "\<bar>b64 6305039478318695 54 - 35 * b64 5764607523034235 59\<bar>
     < \<bar>b64 6305039478318694 54 - 35 * b64 5764607523034235 59\<bar>"
  by (simp_all add: b64_def)

section \<open>Entry checks refuse a side that is not an entry\<close>

text \<open>
  C10.  For every call of \<open>check_entry\<close> with a side that is neither LONG nor SHORT, the
  result is the decision \<open>allowed = False\<close>, reason \<open>side is not entry\<close>, whatever the risk
  state, the positions, the quote, the metadata, the features, the account and the float
  arithmetic are: nothing
  of the position counting, the SL/TP computation or the sizing reaches the result.
\<close>

theorem check_entry_non_entry_side:
  assumes "side \<noteq> LONG" and "side \<noteq> SHORT"
  shows "check_entry ops cfg fmt st symbol side quote symbol_meta features positions account =
           \<lparr>rd_allowed = False, rd_reason = ''side is not entry'', rd_side = side,
            rd_volume = None, rd_sl = None, rd_tp = None, rd_details = []\<rparr>"
  using assms by (simp add: check_entry_def blocked_def)

theorem check_entry_non_entry_side_witness:
  "FLAT \<noteq> LONG \<and> FLAT \<noteq> SHORT \<and>
   check_entry binary64_sample default_config plain_fmt fresh_state ''EURUSD'' FLAT
     \<lparr>q_bid = 1, q_ask = 10002 / 10000\<rparr> test_symbol_meta Map.empty [] None =
     \<lparr>rd_allowed = False, rd_reason = ''side is not entry'', rd_side = FLAT,
      rd_volume = None, rd_sl = None, rd_tp = None, rd_details = []\<rparr>"
  using check_entry_non_entry_side [of FLAT binary64_sample default_config plain_fmt fresh_state
      "''EURUSD''"
      "\<lparr>q_bid = 1, q_ask = 10002 / 10000\<rparr>" test_symbol_meta Map.empty "[]" None]
  by simp

section \<open>Positions and deals of other magic numbers\<close>

lemma count_step_foreign:
  "p_magic p = Some m \<Longrightarrow> m \<noteq> magic \<Longrightarrow> count_step (Some magic) c p = c"
  by (simp add: count_step_def magic_mismatch_def)

lemma on_new_deal_foreign:
  "d_magic d = Some m \<Longrightarrow> m \<noteq> magic \<Longrightarrow> on_new_deal cfg magic st (d, t) = st"
  by (simp add: on_new_deal_def magic_mismatch_def)

text \<open>
  C4 (as amended).  A position or closed deal whose magic number is present and differs
  from the configured one is ignored: \<open>count_positions\<close> gives the same totals and
  per-symbol counts with or without it, and \<open>on_new_deals\<close> leaves the whole risk state
  (so \<open>loss_streak\<close> and \<open>cooloff_until_utc\<close>) as it was.
\<close>

theorem foreign_magic_is_ignored:
  assumes "m \<noteq> magic" and "p_magic p = Some m" and "d_magic d = Some m"
  shows "count_positions (ps @ p # ps') (Some magic) = count_positions (ps @ ps') (Some magic)
       \<and> on_new_deal cfg magic st (d, t) = st
       \<and> on_new_deals cfg st (ds @ (d, t) # ds') magic = on_new_deals cfg st (ds @ ds') magic"
  using assms
  by (simp add: count_positions_def on_new_deals_def count_step_foreign on_new_deal_foreign)

theorem foreign_magic_is_ignored_witness:
  "(111 :: int) \<noteq> 26012026 \<and> p_magic foreign_position = Some 111 \<and> d_magic foreign_loss = Some 111
   \<and> count_positions ([] @ foreign_position # []) (Some 26012026) = count_positions ([] @ []) (Some 26012026)
   \<and> on_new_deal default_config 26012026 fresh_state (foreign_loss, 0) = fresh_state
   \<and> on_new_deals default_config fresh_state ([] @ (foreign_loss, 0) # []) 26012026
       = on_new_deals default_config fresh_state ([] @ []) 26012026"
proof -
  have a: "(111 :: int) \<noteq> 26012026" by simp
  have b: "p_magic foreign_position = Some 111" by (simp add: foreign_position_def)
  have c: "d_magic foreign_loss = Some 111" by (simp add: foreign_loss_def)
  from foreign_magic_is_ignored [OF a b c, of "[]" "[]" default_config fresh_state 0 "[]" "[]"] a b c
  show ?thesis by blast
qed

text \<open>
  C4 as stated fails for a missing magic number: a position without one is counted, and a
  losing close without one raises the loss streak.
\<close>

theorem unmarked_magic_counterexample:
  "p_magic unmarked_position = None \<and>
   pc_total (count_positions [unmarked_position] (Some 26012026)) = 1 \<and>
   pc_per_symbol (count_positions [unmarked_position] (Some 26012026)) ''EURUSD'' = Some 1 \<and>
   pc_total (count_positions [] (Some 26012026)) = 0 \<and>
   d_magic unmarked_loss = None \<and>
   loss_streak fresh_state = 0 \<and>
   loss_streak (on_new_deals default_config fresh_state [(unmarked_loss, 0)] 26012026) = 1"
  by (simp add: count_positions_def count_step_def magic_mismatch_def unmarked_position_def
        foreign_position_def unmarked_loss_def foreign_loss_def on_new_deals_def on_new_deal_def
        fresh_state_def default_config_def str_upper_def char_upper_def float_or_zero_def Let_def)

section \<open>The pause flag after an equity update\<close>

lemma tracked_ok_roll_day: "tracked_ok st \<Longrightarrow> tracked_ok (roll_day equity d st)"
  by (auto simp: tracked_ok_def roll_day_def split: option.splits)

lemma tracked_ok_track_peak: "tracked_ok st \<Longrightarrow> tracked_ok (track_peak equity st)"
  by (auto simp: tracked_ok_def track_peak_def split: option.splits)

lemma computed_dl_spec: "tracked_ok st \<Longrightarrow> computed_dl equity st = spec_dl equity st"
  by (auto simp: tracked_ok_def computed_dl_def spec_dl_def daily_loss_pct_def
        spec_daily_loss_pct_def split: option.splits)

lemma computed_dd_spec: "tracked_ok st \<Longrightarrow> computed_dd equity st = spec_dd equity st"
  by (auto simp: tracked_ok_def computed_dd_def spec_dd_def drawdown_pct_def
        spec_drawdown_pct_def split: option.splits)

lemma pause_verdict_fst:
  "fst (pause_verdict cfg fmt now dl dd c) =
     (reaches dl (max_daily_loss_pct (risk cfg)) \<or> reaches dd (max_drawdown_pct (risk cfg)) \<or>
      (case c of None \<Rightarrow> False | Some t \<Rightarrow> now < t))"
  by (auto simp: pause_verdict_def reaches_def Let_def split: option.splits)

lemma pause_verdict_snd:
  "snd (pause_verdict cfg fmt now dl dd c) =
     (if (case c of None \<Rightarrow> False | Some t \<Rightarrow> now < t)
      then map_option (\<lambda>c. ''cooloff until '' @ fmt_iso fmt c) c
      else if reaches dd (max_drawdown_pct (risk cfg))
      then map_option
             (\<lambda>x. ''max drawdown breached ('' @ fmt_pct2 fmt x @ '' >= ''
                    @ fmt_pct2 fmt (max_drawdown_pct (risk cfg)) @ '')'') dd
      else if reaches dl (max_daily_loss_pct (risk cfg))
      then map_option
             (\<lambda>x. ''max daily loss breached ('' @ fmt_pct2 fmt x @ '' >= ''
                    @ fmt_pct2 fmt (max_daily_loss_pct (risk cfg)) @ '')'') dl
      else None)"
  by (auto simp: pause_verdict_def reaches_def Let_def split: option.splits)

lemma update_equity_state_pause:
  assumes "tracked_ok st"
  shows "paused (snd (update_equity_state cfg fmt now account d st))
           = spec_should_pause cfg now (account_equity account)
               (snd (update_equity_state cfg fmt now account d st))
       \<and> pause_reason (snd (update_equity_state cfg fmt now account d st))
           = spec_pause_reason cfg fmt now (account_equity account)
               (snd (update_equity_state cfg fmt now account d st))
       \<and> er_paused (fst (update_equity_state cfg fmt now account d st))
           = paused (snd (update_equity_state cfg fmt now account d st))"
proof -
  define eq where "eq = account_equity account"
  define st2 where "st2 = track_peak eq (roll_day eq d st)"
  have ok: "tracked_ok st2"
    unfolding st2_def using assms by (simp add: tracked_ok_roll_day tracked_ok_track_peak)
  define v where "v = pause_verdict cfg fmt now (spec_dl eq st2) (spec_dd eq st2) (cooloff_until_utc st2)"
  have s: "snd (update_equity_state cfg fmt now account d st)
             = st2\<lparr>paused := fst v, pause_reason := snd v\<rparr>"
    by (simp add: update_equity_state_def Let_def st2_def v_def eq_def
          computed_dl_spec [OF ok, unfolded st2_def eq_def]
          computed_dd_spec [OF ok, unfolded st2_def eq_def])
  have same: "spec_dl e (st2\<lparr>paused := a, pause_reason := b\<rparr>) = spec_dl e st2"
       "spec_dd e (st2\<lparr>paused := a, pause_reason := b\<rparr>) = spec_dd e st2"
       "spec_in_cooloff now (st2\<lparr>paused := a, pause_reason := b\<rparr>) = spec_in_cooloff now st2" for e a b
    by (simp_all add: spec_dl_def spec_dd_def spec_in_cooloff_def split: option.splits)
  have p: "paused (st2\<lparr>paused := fst v, pause_reason := snd v\<rparr>)
             = spec_should_pause cfg now eq (st2\<lparr>paused := fst v, pause_reason := snd v\<rparr>)"
    by (simp add: v_def pause_verdict_fst spec_should_pause_def same spec_in_cooloff_def)
  have r: "pause_reason (st2\<lparr>paused := fst v, pause_reason := snd v\<rparr>)
             = spec_pause_reason cfg fmt now eq (st2\<lparr>paused := fst v, pause_reason := snd v\<rparr>)"
    by (simp add: v_def pause_verdict_snd spec_pause_reason_def same spec_in_cooloff_def)
  have e: "er_paused (fst (update_equity_state cfg fmt now account d st))
           = paused (snd (update_equity_state cfg fmt now account d st))"
    by (simp add: update_equity_state_def Let_def)
  from p r e show ?thesis unfolding s eq_def by simp
qed

lemma first_update:
  assumes "0 < max_daily_loss_pct (risk cfg)" and "0 < max_drawdown_pct (risk cfg)"
  shows "snd (update_equity_state cfg fmt now (Some (demo_account 1000)) d fresh_state)
     = \<lparr>paused = False, pause_reason = None, cooloff_until_utc = None,
        loss_streak = 0, daily_date = Some d, daily_start_equity = Some 1000, peak_equity = Some 1000\<rparr>"
  using assms
  by (simp add: update_equity_state_def Let_def fresh_state_def demo_account_def account_equity_def
        account_balance_def roll_day_def track_peak_def computed_dd_def computed_dl_def
        pause_verdict_def drawdown_pct_def daily_loss_pct_def)

lemma second_update:
  "paused (snd (update_equity_state cfg fmt now
      (Some (demo_account (1000 * (1 - max_daily_loss_pct (risk cfg) - 1 / 100)))) d
     \<lparr>paused = False, pause_reason = None, cooloff_until_utc = None,
        loss_streak = 0, daily_date = Some d, daily_start_equity = Some 1000, peak_equity = Some 1000\<rparr>))"
  by (simp add: update_equity_state_def Let_def demo_account_def account_equity_def
        account_balance_def roll_day_def track_peak_def computed_dd_def computed_dl_def
        pause_verdict_fst drawdown_pct_def daily_loss_pct_def reaches_def)

text \<open>
  C5.  After every \<open>update_equity_state\<close> call (on a state whose tracked equities are unset
  or positive) the paused flag is true exactly when the daily loss reaches
  \<open>max_daily_loss_pct\<close>, or the drawdown reaches \<open>max_drawdown_pct\<close>, or the current time is
  before \<open>cooloff_until_utc\<close>, with the reason of the last test that fired recorded, and no
  reason when none fired.  In particular, from a fresh state and with positive limits, an
  equity of 1000 leaves the flag false and a drop to \<open>1000 * (1 - max_daily_loss_pct - 0.01)\<close>
  on the same date sets it.
\<close>

theorem paused_iff_limit_breached:
  "(tracked_ok st \<longrightarrow>
      paused (snd (update_equity_state cfg fmt now account d st))
        = spec_should_pause cfg now (account_equity account)
            (snd (update_equity_state cfg fmt now account d st))
      \<and> pause_reason (snd (update_equity_state cfg fmt now account d st))
        = spec_pause_reason cfg fmt now (account_equity account)
            (snd (update_equity_state cfg fmt now account d st))
      \<and> er_paused (fst (update_equity_state cfg fmt now account d st))
        = paused (snd (update_equity_state cfg fmt now account d st)))
   \<and> (0 < max_daily_loss_pct (risk cfg) \<and> 0 < max_drawdown_pct (risk cfg) \<longrightarrow>
      \<not> paused (snd (update_equity_state cfg fmt now (Some (demo_account 1000)) d fresh_state))
      \<and> paused (snd (update_equity_state cfg fmt now'
           (Some (demo_account (1000 * (1 - max_daily_loss_pct (risk cfg) - 1 / 100)))) d
           (snd (update_equity_state cfg fmt now (Some (demo_account 1000)) d fresh_state)))))"
  using update_equity_state_pause [of st cfg fmt now account d]
    first_update [of cfg fmt now d] second_update [of cfg fmt now' d]
  by simp

theorem paused_iff_limit_breached_witness:
  "tracked_ok fresh_state
   \<and> 0 < max_daily_loss_pct (risk default_config) \<and> 0 < max_drawdown_pct (risk default_config)
   \<and> paused (snd (update_equity_state default_config plain_fmt 0 (Some (demo_account 1000)) day1 fresh_state))
        = spec_should_pause default_config 0 (account_equity (Some (demo_account 1000)))
            (snd (update_equity_state default_config plain_fmt 0 (Some (demo_account 1000)) day1 fresh_state))
   \<and> \<not> paused (snd (update_equity_state default_config plain_fmt 0 (Some (demo_account 1000)) day1 fresh_state))
   \<and> paused (snd (update_equity_state default_config plain_fmt 1
           (Some (demo_account (1000 * (1 - max_daily_loss_pct (risk default_config) - 1 / 100)))) day1
           (snd (update_equity_state default_config plain_fmt 0 (Some (demo_account 1000)) day1 fresh_state))))"
proof -
  have a: "tracked_ok fresh_state" by (simp add: tracked_ok_def fresh_state_def)
  have b: "0 < max_daily_loss_pct (risk default_config) \<and> 0 < max_drawdown_pct (risk default_config)"
    by (simp add: default_config_def)
  from paused_iff_limit_breached [of fresh_state default_config plain_fmt 0 "Some (demo_account 1000)" day1 1] a b
  show ?thesis by blast
qed

lemma tracked_ok_fresh: "tracked_ok fresh_state"
  by (simp add: tracked_ok_def fresh_state_def)


section \<open>The equity peak\<close>

lemma peak_after_update:
  "peak_equity (snd (update_equity_state cfg fmt now account d st))
     = peak_equity (track_peak (account_equity account) st)"
  by (simp add: update_equity_state_def Let_def track_peak_def roll_day_def split: option.splits)

lemma update_peak_not_below:
  "peak_not_below (peak_equity (snd (update_equity_state cfg fmt now account d st))) (peak_equity st)"
  by (simp add: peak_after_update track_peak_def peak_not_below_def peak_at_least_def
        split: option.splits)

lemma update_peak_covers:
  "account_equity account = Some e \<Longrightarrow> 0 < e \<Longrightarrow>
   peak_at_least (peak_equity (snd (update_equity_state cfg fmt now account d st))) e"
  by (simp add: peak_after_update track_peak_def peak_at_least_def split: option.splits)

lemma peak_not_below_trans:
  "peak_not_below b a \<Longrightarrow> peak_not_below c b \<Longrightarrow> peak_not_below c a"
  by (auto simp: peak_not_below_def peak_at_least_def split: option.splits)

lemma peak_at_least_mono:
  "peak_at_least a e \<Longrightarrow> peak_not_below b a \<Longrightarrow> peak_at_least b e"
  by (auto simp: peak_not_below_def peak_at_least_def split: option.splits)

lemma peak_not_below_refl: "peak_not_below a a"
  by (simp add: peak_not_below_def peak_at_least_def split: option.splits)

lemma equity_updates_peak_not_below:
  "peak_not_below (peak_equity (equity_updates cfg fmt st cs)) (peak_equity st)"
proof (induction cs arbitrary: st)
  case Nil
  show ?case by (simp add: peak_not_below_refl)
next
  case (Cons c cs)
  have "peak_not_below
          (peak_equity (snd (update_equity_state cfg fmt (fst c) (fst (snd c)) (snd (snd c)) st)))
          (peak_equity st)"
    by (rule update_peak_not_below)
  then show ?case using Cons.IH by (simp add: peak_not_below_trans)
qed

lemma equity_updates_append:
  "equity_updates cfg fmt st (cs @ cs') = equity_updates cfg fmt (equity_updates cfg fmt st cs) cs'"
  by (induction cs arbitrary: st) simp_all

lemma equity_updates_covers:
  "c \<in> set cs \<Longrightarrow> account_equity (fst (snd c)) = Some e \<Longrightarrow> 0 < e \<Longrightarrow>
   peak_at_least (peak_equity (equity_updates cfg fmt st cs)) e"
proof (induction cs arbitrary: st)
  case Nil
  then show ?case by simp
next
  case (Cons x cs)
  show ?case
  proof (cases "c = x")
    case True
    have "peak_at_least
            (peak_equity (snd (update_equity_state cfg fmt (fst x) (fst (snd x)) (snd (snd x)) st))) e"
      using Cons.prems True by (simp add: update_peak_covers)
    then show ?thesis
      using equity_updates_peak_not_below peak_at_least_mono by fastforce
  next
    case False
    with Cons show ?thesis by simp
  qed
qed

lemma tracked_ok_update:
  "tracked_ok st \<Longrightarrow> tracked_ok (snd (update_equity_state cfg fmt now account d st))"
  using tracked_ok_track_peak [OF tracked_ok_roll_day, of st "account_equity account" "account_equity account" d]
  by (simp add: update_equity_state_def Let_def tracked_ok_def)

lemma tracked_ok_updates: "tracked_ok st \<Longrightarrow> tracked_ok (equity_updates cfg fmt st cs)"
  by (induction cs arbitrary: st) (simp_all add: tracked_ok_update)

text \<open>
  C8 (as amended).  Over every sequence of \<open>update_equity_state\<close> calls the peak never
  falls (each later peak is at least each earlier one, an unset peak counting as lowest),
  and after the sequence the peak is at least every positive equity observed in it.
  Equities that are zero or negative are not tracked; once a peak is recorded on a state
  whose tracked equities were unset or positive, it is at least every observed equity.
\<close>

theorem peak_equity_monotone:
  "peak_not_below (peak_equity (equity_updates cfg fmt st (cs @ cs')))
       (peak_equity (equity_updates cfg fmt st cs))
   \<and> (\<forall>c \<in> set cs. \<forall>e. account_equity (fst (snd c)) = Some e \<and> 0 < e \<longrightarrow>
         peak_at_least (peak_equity (equity_updates cfg fmt st cs)) e)
   \<and> (tracked_ok st \<longrightarrow>
        (\<forall>c \<in> set cs. \<forall>e p. account_equity (fst (snd c)) = Some e
            \<and> peak_equity (equity_updates cfg fmt st cs) = Some p \<longrightarrow> e \<le> p))"
proof (intro conjI ballI allI impI)
  show "peak_not_below (peak_equity (equity_updates cfg fmt st (cs @ cs')))
       (peak_equity (equity_updates cfg fmt st cs))"
    by (simp add: equity_updates_append equity_updates_peak_not_below)
next
  fix c e
  assume "c \<in> set cs" and "account_equity (fst (snd c)) = Some e \<and> 0 < e"
  then show "peak_at_least (peak_equity (equity_updates cfg fmt st cs)) e"
    by (simp add: equity_updates_covers)
next
  fix c e p
  assume ok: "tracked_ok st" and c: "c \<in> set cs"
    and h: "account_equity (fst (snd c)) = Some e \<and> peak_equity (equity_updates cfg fmt st cs) = Some p"
  have "tracked_ok (equity_updates cfg fmt st cs)" using ok by (rule tracked_ok_updates)
  with h have pos: "0 < p" by (simp add: tracked_ok_def)
  show "e \<le> p"
  proof (cases "0 < e")
    case True
    from h have "account_equity (fst (snd c)) = Some e" by simp
    from equity_updates_covers [OF c this True]
    have "peak_at_least (peak_equity (equity_updates cfg fmt st cs)) e" .
    with h show ?thesis by (simp add: peak_at_least_def)
  next
    case False
    with pos show ?thesis by simp
  qed
qed

theorem peak_equity_monotone_witness:
  "tracked_ok fresh_state
   \<and> (1, Some (demo_account 970), day1) \<in> set sample_calls
   \<and> account_equity (fst (snd (1 :: int, Some (demo_account 970), day1))) = Some 970 \<and> (0 :: real) < 970
   \<and> peak_equity (equity_updates default_config plain_fmt fresh_state sample_calls) = Some 1000
   \<and> peak_at_least (peak_equity (equity_updates default_config plain_fmt fresh_state sample_calls)) 970
   \<and> (970 :: real) \<le> 1000"
proof -
  have a: "tracked_ok fresh_state" by (simp add: tracked_ok_def fresh_state_def)
  have b: "(1, Some (demo_account 970), day1) \<in> set sample_calls" by (simp add: sample_calls_def)
  have c: "account_equity (fst (snd (1 :: int, Some (demo_account 970), day1))) = Some 970 \<and> (0 :: real) < 970"
    by (simp add: account_equity_def demo_account_def)
  have d: "peak_equity (equity_updates default_config plain_fmt fresh_state sample_calls) = Some 1000"
    by (simp add: sample_calls_def peak_after_update track_peak_def account_equity_def
          demo_account_def fresh_state_def)
  from peak_equity_monotone [of default_config plain_fmt fresh_state sample_calls "[]"] a b c d
  show ?thesis by fastforce
qed

text \<open>
  C8 as stated fails when the only equity observed is not positive: from a fresh state an
  equity of 0 leaves the peak unset, so no peak is at or above the observed value.
\<close>

theorem peak_equity_counterexample:
  "account_equity (Some (demo_account 0)) = Some 0
   \<and> peak_equity (equity_updates default_config plain_fmt fresh_state
        [(0, Some (demo_account 0), day1)]) = None
   \<and> \<not> peak_at_least (peak_equity (equity_updates default_config plain_fmt fresh_state
        [(0, Some (demo_account 0), day1)])) 0"
  by (simp add: peak_after_update track_peak_def account_equity_def demo_account_def
        fresh_state_def peak_at_least_def)

section \<open>The scheduler only moves forward\<close>

lemma poll_returns:
  assumes "poll sch c = Inr (Some t, sch')"
  shows "last_candle_close_time_utc sch' = Some t"
    and "last_candle_close_time_utc sch = Some l \<Longrightarrow> l < t"
  using assms
  by (auto simp: poll_def Let_def split: sum.splits option.splits if_splits)

lemma poll_nothing:
  assumes "poll sch c = Inr (None, sch')"
  shows "sch' = sch"
  using assms
  by (auto simp: poll_def Let_def split: sum.splits option.splits if_splits)

lemma polls_above_last:
  "last_candle_close_time_utc sch = Some l \<Longrightarrow> t \<in> set (polls sch cs) \<Longrightarrow> l < t"
proof (induction cs arbitrary: sch l)
  case Nil
  then show ?case by simp
next
  case (Cons c cs)
  show ?case
  proof (cases "poll sch c")
    case (Inl e)
    with Cons show ?thesis by simp
  next
    case (Inr r)
    obtain o' sch' where r: "r = (o', sch')" by (cases r)
    show ?thesis
    proof (cases o')
      case None
      with Inr r have "sch' = sch" by (simp add: poll_nothing)
      with Cons Inr r None show ?thesis by simp
    next
      case (Some u)
      with Inr r have p: "poll sch c = Inr (Some u, sch')" by simp
      from poll_returns [OF p] Cons.prems(1)
      have l': "last_candle_close_time_utc sch' = Some u" and lu: "l < u" by simp_all
      from Cons.prems(2) Inr r Some have "t = u \<or> t \<in> set (polls sch' cs)" by simp
      then show ?thesis
      proof
        assume "t = u" with lu show ?thesis by simp
      next
        assume "t \<in> set (polls sch' cs)"
        from Cons.IH [OF l' this] lu show ?thesis by simp
      qed
    qed
  qed
qed

lemma polls_increasing: "sorted_wrt (<) (polls sch cs)"
proof (induction cs arbitrary: sch)
  case Nil
  show ?case by simp
next
  case (Cons c cs)
  show ?case
  proof (cases "poll sch c")
    case (Inl e)
    with Cons show ?thesis by simp
  next
    case (Inr r)
    obtain o' sch' where r: "r = (o', sch')" by (cases r)
    show ?thesis
    proof (cases o')
      case None
      with Inr r Cons show ?thesis by simp
    next
      case (Some u)
      with Inr r have p: "poll sch c = Inr (Some u, sch')" by simp
      from poll_returns(1) [OF p] have "\<forall>t \<in> set (polls sch' cs). u < t"
        by (auto dest: polls_above_last)
      with Inr r Some Cons.IH [of sch'] show ?thesis by simp
    qed
  qed
qed

lemma poll_stale:
  assumes "3 \<le> length rows" and "timeframe_seconds (timeframe sch) = Inr secs"
    and "last_candle_close_time_utc sch = Some l"
    and "rows ! (length rows - 2) + seconds_us secs \<le> l"
  shows "poll sch (Inr (Some rows)) = Inr (None, sch)"
  using assms by (auto simp: poll_def Let_def)

text \<open>
  C3.  Over every sequence of \<open>poll\<close> calls, whatever the connector answers, the close times
  returned are strictly increasing, and all lie above the last close time the scheduler
  had returned before the sequence; a poll that returns a time records it as the last one;
  a poll whose computed close time is not strictly greater than the last returned one
  returns nothing and leaves the scheduler as it was.
\<close>

theorem scheduler_strictly_increasing:
  "sorted_wrt (<) (polls sch cs)
   \<and> (\<forall>l. last_candle_close_time_utc sch = Some l \<longrightarrow> (\<forall>t \<in> set (polls sch cs). l < t))
   \<and> (\<forall>t sch'. poll sch c = Inr (Some t, sch') \<longrightarrow>
         last_candle_close_time_utc sch' = Some t
         \<and> (\<forall>l. last_candle_close_time_utc sch = Some l \<longrightarrow> l < t))
   \<and> (\<forall>rows secs l. 3 \<le> length rows \<and> timeframe_seconds (timeframe sch) = Inr secs
         \<and> last_candle_close_time_utc sch = Some l
         \<and> rows ! (length rows - 2) + seconds_us secs \<le> l
         \<longrightarrow> poll sch (Inr (Some rows)) = Inr (None, sch))"
  using polls_increasing [of sch cs] polls_above_last [of sch _ _ cs]
    poll_returns [of sch c] poll_stale [of _ sch]
  by blast

theorem scheduler_strictly_increasing_witness:
  "polls hourly sample_frames = [7200000000, 10800000000]
   \<and> sorted_wrt (<) (polls hourly sample_frames)
   \<and> poll hourly (Inr (Some [0, 3600000000, 7200000000]))
        = Inr (Some 7200000000, hourly\<lparr>last_candle_close_time_utc := Some 7200000000\<rparr>)
   \<and> last_candle_close_time_utc (hourly\<lparr>last_candle_close_time_utc := Some 7200000000\<rparr>)
        = Some 7200000000
   \<and> (3 :: nat) \<le> length [0 :: int, 3600000000, 7200000000]
   \<and> timeframe_seconds (timeframe (hourly\<lparr>last_candle_close_time_utc := Some 7200000000\<rparr>)) = Inr 3600
   \<and> [0, 3600000000, 7200000000] ! (length [0 :: int, 3600000000, 7200000000] - 2) + seconds_us 3600
        \<le> 7200000000
   \<and> poll (hourly\<lparr>last_candle_close_time_utc := Some 7200000000\<rparr>)
        (Inr (Some [0, 3600000000, 7200000000]))
        = Inr (None, hourly\<lparr>last_candle_close_time_utc := Some 7200000000\<rparr>)
   \<and> polls (hourly\<lparr>last_candle_close_time_utc := Some 7200000000\<rparr>) sample_frames
        = [10800000000]"
proof -
  let ?h = "hourly\<lparr>last_candle_close_time_utc := Some 7200000000\<rparr>"
  have a: "polls hourly sample_frames = [7200000000, 10800000000]"
    by (simp add: hourly_def sample_frames_def poll_def timeframe_seconds_def TIMEFRAMES_def
          seconds_us_def Let_def)
  have b: "poll hourly (Inr (Some [0, 3600000000, 7200000000])) = Inr (Some 7200000000, ?h)"
    by (simp add: hourly_def poll_def timeframe_seconds_def TIMEFRAMES_def seconds_us_def Let_def)
  have c: "last_candle_close_time_utc ?h = Some 7200000000" by simp
  have d: "(3 :: nat) \<le> length [0 :: int, 3600000000, 7200000000]" by simp
  have e: "timeframe_seconds (timeframe ?h) = Inr 3600"
    by (simp add: hourly_def timeframe_seconds_def TIMEFRAMES_def)
  have f: "[0, 3600000000, 7200000000] ! (length [0 :: int, 3600000000, 7200000000] - 2)
             + seconds_us 3600 \<le> 7200000000"
    by (simp add: seconds_us_def)
  from scheduler_strictly_increasing [of hourly sample_frames "Inr (Some [0, 3600000000, 7200000000])"]
  have g: "sorted_wrt (<) (polls hourly sample_frames)" by blast
  from scheduler_strictly_increasing [of ?h sample_frames "Inr (Some [0, 3600000000, 7200000000])"] c d e f
  have h: "poll ?h (Inr (Some [0, 3600000000, 7200000000])) = Inr (None, ?h)"
    by blast
  have i: "polls ?h sample_frames = [10800000000]"
    by (simp add: hourly_def sample_frames_def poll_def timeframe_seconds_def TIMEFRAMES_def
          seconds_us_def Let_def)
  from a b c d e f g h i show ?thesis by blast
qed

section \<open>At most one dispatch per idempotency key\<close>

lemma retry_attempts_send:
  "\<exists>n. placed (snd (retry_attempts (send b req) m bo atts lst w)) = placed w @ replicate n req
       \<and> n \<le> length atts \<and> (atts \<noteq> [] \<longrightarrow> 1 \<le> n)
       \<and> (atts \<noteq> [] \<and> \<not> retryable_answer (place_order_answer b (length (placed w)) req) \<longrightarrow> n = 1)
       \<and> decisions (snd (retry_attempts (send b req) m bo atts lst w)) = decisions w"
proof (induction atts arbitrary: lst w)
  case Nil
  show ?case by simp
next
  case (Cons t atts)
  let ?w1 = "w\<lparr>placed := placed w @ [req]\<rparr>"
  let ?ans = "place_order_answer b (length (placed w)) req"
  show ?case
  proof (cases "retryable_answer ?ans \<and> t < m")
    case False
    then have "snd (retry_attempts (send b req) m bo (t # atts) lst w) = ?w1"
      by (auto simp: send_def retryable_answer_def Let_def split: sum.splits)
    then show ?thesis by (intro exI [of _ 1]) simp
  next
    case True
    then obtain e where e: "?ans = Inl e" "is_retryable e"
      by (auto simp: retryable_answer_def split: sum.splits)
    let ?w2 = "sleep (backoff_delay bo t) ?w1"
    have step: "retry_attempts (send b req) m bo (t # atts) lst w
                  = retry_attempts (send b req) m bo atts (Some e) ?w2"
      using True e by (simp add: send_def Let_def)
    from Cons.IH [of "Some e" ?w2] obtain n where
      n: "placed (snd (retry_attempts (send b req) m bo atts (Some e) ?w2)) = placed ?w2 @ replicate n req"
         "n \<le> length atts"
         "decisions (snd (retry_attempts (send b req) m bo atts (Some e) ?w2)) = decisions ?w2"
      by blast
    have "placed ?w2 @ replicate n req = placed w @ replicate (Suc n) req"
      by (simp add: sleep_def)
    with n step True show ?thesis
      by (intro exI [of _ "Suc n"]) (simp add: sleep_def)
  qed
qed

lemma call_with_retries_send:
  "\<exists>n. dispatched b req m w (snd (call_with_retries (send b req) m bo w)) n
       \<and> decisions (snd (call_with_retries (send b req) m bo w)) = decisions w"
proof -
  have ne: "([1..m] \<noteq> []) = (1 \<le> m)" by auto
  from retry_attempts_send [of b req m bo "[1..m]" None w]
  show ?thesis
    unfolding call_with_retries_def dispatched_def ne by (auto simp: nat_le_iff)
qed

lemma has_key_rows: "has_key key w = (key_rows key w \<noteq> [])"
  by (auto simp: has_key_def key_rows_def filter_empty_conv list_ex_iff)

lemma try_insert_fresh:
  "\<not> has_key (dr_idempotency_key row) w \<Longrightarrow>
   fst (try_insert row w) \<and> key_rows (dr_idempotency_key row) (snd (try_insert row w)) = [row]
   \<and> placed (snd (try_insert row w)) = placed w"
proof -
  assume "\<not> has_key (dr_idempotency_key row) w"
  then have n: "\<forall>r \<in> set (decisions w). dr_idempotency_key r \<noteq> dr_idempotency_key row"
    and f: "try_insert row w = (True, w\<lparr>decisions := decisions w @ [row]\<rparr>)"
    by (auto simp: has_key_def try_insert_def list_ex_iff)
  from n have "filter (\<lambda>r. dr_idempotency_key r = dr_idempotency_key row) (decisions w) = []"
    by (simp add: filter_empty_conv)
  with f show ?thesis by (simp add: key_rows_def)
qed

lemma try_insert_dup:
  "has_key (dr_idempotency_key row) w \<Longrightarrow> try_insert row w = (False, w)"
  by (simp add: try_insert_def)

lemma key_rows_update:
  "key_rows key (update_decision key status result w)
     = map (\<lambda>r. r\<lparr>dr_status := status, dr_result := Some result\<rparr>) (key_rows key w)"
  by (simp add: key_rows_def update_decision_def filter_map comp_def)

lemma placed_update [simp]: "placed (update_decision key status result w) = placed w"
  by (simp add: update_decision_def)

lemma verify_open_keeps [simp]:
  "placed (verify_open cfg b smb w) = placed w"
  "decisions (verify_open cfg b smb w) = decisions w"
  by (simp_all add: verify_open_def sleep_def Let_def split: sum.splits)

lemma verify_closed_keeps [simp]:
  "placed (verify_closed b pid w) = placed w"
  "decisions (verify_closed b pid w) = decisions w"
  by (simp_all add: verify_closed_def sleep_def Let_def split: sum.splits)

lemma key_rows_cong: "decisions w = decisions w' \<Longrightarrow> key_rows key w = key_rows key w'"
  by (simp add: key_rows_def)

lemma skipped_row_key [simp]: "dr_idempotency_key (skipped_row a req) = ta_idempotency_key a"
  by (simp add: skipped_row_def)

lemma open_trade_on_duplicate:
  "has_key (ta_idempotency_key a) w \<Longrightarrow>
   open_trade cfg fmt b a side slp tpp w =
     (if \<not> trading_enabled (execution cfg)
      then (Inr (report ''open'' False ''trading disabled'' None None), w)
      else (case account_info_answer b of
              Inl e \<Rightarrow> (Inl e, w)
            | Inr ai \<Rightarrow>
                (case refused_mode ai of
                   Some m \<Rightarrow>
                     (Inr (report ''open'' False
                             (''paper-only gate: trade_mode='' @ fmt_trade_mode fmt m) None None), w)
                 | None \<Rightarrow>
                     (Inr (report ''open'' False ''duplicate idempotency key'' None None), w))))"
  by (simp add: open_trade_def try_insert_dup Let_def split: sum.splits option.splits)

lemma close_trade_on_duplicate:
  "has_key (ta_idempotency_key a) w \<Longrightarrow>
   close_trade cfg fmt b a pid cs why w =
     (if \<not> trading_enabled (execution cfg)
      then (Inr (report ''close'' False ''trading disabled'' None None), w)
      else (case account_info_answer b of
              Inl e \<Rightarrow> (Inl e, w)
            | Inr ai \<Rightarrow>
                (case refused_mode ai of
                   Some m \<Rightarrow>
                     (Inr (report ''close'' False
                             (''paper-only gate: trade_mode='' @ fmt_trade_mode fmt m) None None), w)
                 | None \<Rightarrow>
                     (Inr (report ''close'' False ''duplicate idempotency key'' None None), w))))"
  by (simp add: close_trade_def try_insert_dup Let_def split: sum.splits option.splits)

lemma execute_duplicate:
  assumes "has_key (call_key c) w"
  shows "snd (execute cfg fmt b c w) = w"
    and "fst (execute cfg fmt b c w) = Inr rep \<Longrightarrow> \<not> xr_success rep"
    and "passes_gates cfg b \<Longrightarrow> fst (execute cfg fmt b c w) = Inr (duplicate_report c)"
  using assms
  by (cases c;
      auto simp: execute_def call_key_def open_trade_on_duplicate close_trade_on_duplicate
        report_def passes_gates_def duplicate_report_def call_action_def
        split: sum.splits option.splits if_splits)+

lemma open_trade_fresh:
  assumes g: "passes_gates cfg b" and f: "\<not> has_key (ta_idempotency_key a) w"
  shows "\<exists>n row. dispatched b (open_order cfg a side slp tpp) (retries_max_attempts (execution cfg))
                    w (snd (open_trade cfg fmt b a side slp tpp w)) n
          \<and> key_rows (ta_idempotency_key a) (snd (open_trade cfg fmt b a side slp tpp w)) = [row]
          \<and> dr_status row \<in> {Opened, Error}"
proof -
  let ?req = "open_order cfg a side slp tpp"
  let ?k = "ta_idempotency_key a"
  let ?w0 = "snd (try_insert (skipped_row a ?req) w)"
  let ?sent = "call_with_retries (send b ?req) (retries_max_attempts (execution cfg))
                 (retries_backoff_seconds (execution cfg)) ?w0"
  from f have ins: "fst (try_insert (skipped_row a ?req) w)"
    "key_rows ?k ?w0 = [skipped_row a ?req]" "placed ?w0 = placed w"
    using try_insert_fresh [of "skipped_row a ?req" w] by simp_all
  from call_with_retries_send [of b ?req "retries_max_attempts (execution cfg)" ?w0]
  obtain n where n: "dispatched b ?req (retries_max_attempts (execution cfg)) ?w0 (snd ?sent) n"
    and d: "decisions (snd ?sent) = decisions ?w0" by blast
  from n ins(3) have n': "dispatched b ?req (retries_max_attempts (execution cfg)) w (snd ?sent) n"
    by (simp add: dispatched_def)
  have rows: "key_rows ?k (snd ?sent) = [skipped_row a ?req]"
    using key_rows_cong [OF d] ins(2) by simp
  from g obtain ai where ai: "trading_enabled (execution cfg)" "account_info_answer b = Inr ai"
    "refused_mode ai = None"
    by (auto simp: passes_gates_def split: sum.splits)
  have "\<exists>status result v. snd (open_trade cfg fmt b a side slp tpp w)
           = v (update_decision ?k status result (snd ?sent))
         \<and> status \<in> {Opened, Error}
         \<and> (\<forall>u. placed (v u) = placed u \<and> decisions (v u) = decisions u)"
  proof (cases "fst ?sent")
    case (Inl exc)
    with ai ins(1) show ?thesis
      by (intro exI [of _ Error] exI [of _ "ErrorResult (exn_str exc) None"] exI [of _ "\<lambda>u. u"])
         (simp add: open_trade_def Let_def)
  next
    case (Inr res)
    show ?thesis
    proof (cases "res_success res")
      case False
      with Inr ai ins(1) show ?thesis
        by (intro exI [of _ Error] exI [of _ "OutcomeResult False None (res_raw res)"]
              exI [of _ "\<lambda>u. u"])
           (simp add: open_trade_def Let_def)
    next
      case True
      with Inr ai ins(1) show ?thesis
        by (intro exI [of _ Opened] exI [of _ "OutcomeResult True None (res_raw res)"]
              exI [of _ "verify_open cfg b (ta_symbol a)"])
           (simp add: open_trade_def Let_def)
    qed
  qed
  then obtain status result v where
    w': "snd (open_trade cfg fmt b a side slp tpp w) = v (update_decision ?k status result (snd ?sent))"
    and st: "status \<in> {Opened, Error}"
    and v: "\<And>u. placed (v u) = placed u" "\<And>u. decisions (v u) = decisions u"
    by blast
  have p: "placed (snd (open_trade cfg fmt b a side slp tpp w)) = placed (snd ?sent)"
    by (simp add: w' v)
  have r: "key_rows ?k (snd (open_trade cfg fmt b a side slp tpp w))
             = [(skipped_row a ?req)\<lparr>dr_status := status, dr_result := Some result\<rparr>]"
    unfolding w' using key_rows_cong [OF v(2)] by (simp add: key_rows_update rows)
  from n' p have "dispatched b ?req (retries_max_attempts (execution cfg)) w
                    (snd (open_trade cfg fmt b a side slp tpp w)) n"
    by (simp add: dispatched_def)
  with r st show ?thesis by auto
qed

lemma close_trade_fresh:
  assumes g: "passes_gates cfg b" and f: "\<not> has_key (ta_idempotency_key a) w"
  shows "\<exists>n row. dispatched b (close_order cfg a pid cs) (retries_max_attempts (execution cfg))
                    w (snd (close_trade cfg fmt b a pid cs why w)) n
          \<and> key_rows (ta_idempotency_key a) (snd (close_trade cfg fmt b a pid cs why w)) = [row]
          \<and> dr_status row \<in> {Closed, Error}"
proof -
  let ?req = "close_order cfg a pid cs"
  let ?k = "ta_idempotency_key a"
  let ?w0 = "snd (try_insert (skipped_row a ?req) w)"
  let ?sent = "call_with_retries (send b ?req) (retries_max_attempts (execution cfg))
                 (retries_backoff_seconds (execution cfg)) ?w0"
  from f have ins: "fst (try_insert (skipped_row a ?req) w)"
    "key_rows ?k ?w0 = [skipped_row a ?req]" "placed ?w0 = placed w"
    using try_insert_fresh [of "skipped_row a ?req" w] by simp_all
  from call_with_retries_send [of b ?req "retries_max_attempts (execution cfg)" ?w0]
  obtain n where n: "dispatched b ?req (retries_max_attempts (execution cfg)) ?w0 (snd ?sent) n"
    and d: "decisions (snd ?sent) = decisions ?w0" by blast
  from n ins(3) have n': "dispatched b ?req (retries_max_attempts (execution cfg)) w (snd ?sent) n"
    by (simp add: dispatched_def)
  have rows: "key_rows ?k (snd ?sent) = [skipped_row a ?req]"
    using key_rows_cong [OF d] ins(2) by simp
  from g obtain ai where ai: "trading_enabled (execution cfg)" "account_info_answer b = Inr ai"
    "refused_mode ai = None"
    by (auto simp: passes_gates_def split: sum.splits)
  have "\<exists>status result v. snd (close_trade cfg fmt b a pid cs why w)
           = v (update_decision ?k status result (snd ?sent))
         \<and> status \<in> {Closed, Error}
         \<and> (\<forall>u. placed (v u) = placed u \<and> decisions (v u) = decisions u)"
  proof (cases "fst ?sent")
    case (Inl exc)
    with ai ins(1) show ?thesis
      by (intro exI [of _ Error] exI [of _ "ErrorResult (exn_str exc) (Some why)"] exI [of _ "\<lambda>u. u"])
         (simp add: close_trade_def Let_def)
  next
    case (Inr res)
    show ?thesis
    proof (cases "res_success res")
      case False
      with Inr ai ins(1) show ?thesis
        by (intro exI [of _ Error] exI [of _ "OutcomeResult False (Some why) (res_raw res)"]
              exI [of _ "\<lambda>u. u"])
           (simp add: close_trade_def Let_def)
    next
      case True
      with Inr ai ins(1) show ?thesis
        by (intro exI [of _ Closed] exI [of _ "OutcomeResult True (Some why) (res_raw res)"]
              exI [of _ "verify_closed b pid"])
           (simp add: close_trade_def Let_def)
    qed
  qed
  then obtain status result v where
    w': "snd (close_trade cfg fmt b a pid cs why w) = v (update_decision ?k status result (snd ?sent))"
    and st: "status \<in> {Closed, Error}"
    and v: "\<And>u. placed (v u) = placed u" "\<And>u. decisions (v u) = decisions u"
    by blast
  have p: "placed (snd (close_trade cfg fmt b a pid cs why w)) = placed (snd ?sent)"
    by (simp add: w' v)
  have r: "key_rows ?k (snd (close_trade cfg fmt b a pid cs why w))
             = [(skipped_row a ?req)\<lparr>dr_status := status, dr_result := Some result\<rparr>]"
    unfolding w' using key_rows_cong [OF v(2)] by (simp add: key_rows_update rows)
  from n' p have "dispatched b ?req (retries_max_attempts (execution cfg)) w
                    (snd (close_trade cfg fmt b a pid cs why w)) n"
    by (simp add: dispatched_def)
  with r st show ?thesis by auto
qed

lemma execute_fresh:
  assumes "passes_gates cfg b" and "\<not> has_key (call_key c) w"
  shows "\<exists>n row. dispatched b (call_order cfg c) (retries_max_attempts (execution cfg))
                    w (snd (execute cfg fmt b c w)) n
          \<and> key_rows (call_key c) (snd (execute cfg fmt b c w)) = [row]
          \<and> dr_status row \<in> {done_status c, Error}"
proof (cases c)
  case (OpenTrade a side slp tpp)
  with assms open_trade_fresh [of cfg b a w side slp tpp fmt] show ?thesis
    by (simp add: execute_def call_key_def call_order_def done_status_def)
next
  case (CloseTrade a pid cs why)
  with assms close_trade_fresh [of cfg b a w pid cs fmt why] show ?thesis
    by (simp add: execute_def call_key_def call_order_def done_status_def)
qed

lemma execute_twice:
  assumes g1: "passes_gates cfg b1" and g2: "passes_gates cfg b2"
    and f: "\<not> has_key (call_key c1) w" and k: "call_key c2 = call_key c1"
  shows "fst (execute cfg fmt b2 c2 (snd (execute cfg fmt b1 c1 w))) = Inr (duplicate_report c2)
       \<and> snd (execute cfg fmt b2 c2 (snd (execute cfg fmt b1 c1 w))) = snd (execute cfg fmt b1 c1 w)
       \<and> (\<exists>n row. dispatched b1 (call_order cfg c1) (retries_max_attempts (execution cfg)) w
                     (snd (execute cfg fmt b2 c2 (snd (execute cfg fmt b1 c1 w)))) n
             \<and> key_rows (call_key c1) (snd (execute cfg fmt b2 c2 (snd (execute cfg fmt b1 c1 w))))
                  = [row]
             \<and> dr_status row \<in> {done_status c1, Error})"
proof -
  let ?w1 = "snd (execute cfg fmt b1 c1 w)"
  from execute_fresh [OF g1 f, of fmt] obtain n row where
    nr: "dispatched b1 (call_order cfg c1) (retries_max_attempts (execution cfg)) w ?w1 n"
        "key_rows (call_key c1) ?w1 = [row]" "dr_status row \<in> {done_status c1, Error}"
    by blast
  from nr(2) k have h: "has_key (call_key c2) ?w1" by (simp add: has_key_rows)
  from execute_duplicate(1) [OF h] execute_duplicate(3) [OF h g2] nr show ?thesis by auto
qed


text \<open>
  C1 (as amended).  A call of \<open>open_trade\<close> or \<open>close_trade\<close> whose idempotency key already
  has a row in the decisions store never invokes the broker's \<open>place_order\<close>, changes
  nothing in the store and reports no success; when trading is enabled and the account
  passes the paper-only gate, its report is the unsuccessful one with reason
  \<open>duplicate idempotency key\<close>.  Over two attempts with the key of one five-field tuple
  (not yet stored, both attempts passing the gates), the second attempt is refused so and
  invokes nothing, every \<open>place_order\<close> invocation is one of the first attempt's (at most
  \<open>max_attempts\<close>, at least one when \<open>max_attempts \<ge> 1\<close>, exactly one unless a retryable or
  disconnected error is retried), and the store ends with exactly one row for the key, in
  status opened/closed or error.
\<close>

theorem idempotent_dispatch:
  "(has_key (call_key c) w \<longrightarrow>
      snd (execute cfg fmt b c w) = w
      \<and> (\<forall>rep. fst (execute cfg fmt b c w) = Inr rep \<longrightarrow> \<not> xr_success rep)
      \<and> (passes_gates cfg b \<longrightarrow> fst (execute cfg fmt b c w) = Inr (duplicate_report c)))
   \<and> (passes_gates cfg b1 \<and> passes_gates cfg b2 \<and> \<not> has_key (call_key c1) w
       \<and> call_key c1 = make_idempotency_key sha256_hex smb tf cct strat sd
       \<and> call_key c2 = make_idempotency_key sha256_hex smb tf cct strat sd \<longrightarrow>
      fst (execute cfg fmt b2 c2 (snd (execute cfg fmt b1 c1 w))) = Inr (duplicate_report c2)
      \<and> snd (execute cfg fmt b2 c2 (snd (execute cfg fmt b1 c1 w))) = snd (execute cfg fmt b1 c1 w)
      \<and> (\<exists>n row. dispatched b1 (call_order cfg c1) (retries_max_attempts (execution cfg)) w
                    (snd (execute cfg fmt b2 c2 (snd (execute cfg fmt b1 c1 w)))) n
            \<and> key_rows (call_key c1) (snd (execute cfg fmt b2 c2 (snd (execute cfg fmt b1 c1 w))))
                 = [row]
            \<and> dr_status row \<in> {done_status c1, Error}))"
proof (intro conjI impI allI)
  assume h: "has_key (call_key c) w"
  show "snd (execute cfg fmt b c w) = w" using h by (rule execute_duplicate(1))
  show "\<not> xr_success rep" if "fst (execute cfg fmt b c w) = Inr rep" for rep
    using h that by (rule execute_duplicate(2))
  show "fst (execute cfg fmt b c w) = Inr (duplicate_report c)" if "passes_gates cfg b"
    using h that by (rule execute_duplicate(3))
next
  assume a: "passes_gates cfg b1 \<and> passes_gates cfg b2 \<and> \<not> has_key (call_key c1) w
       \<and> call_key c1 = make_idempotency_key sha256_hex smb tf cct strat sd
       \<and> call_key c2 = make_idempotency_key sha256_hex smb tf cct strat sd"
  then have k: "call_key c2 = call_key c1" by simp
  from a have g1: "passes_gates cfg b1" and g2: "passes_gates cfg b2"
    and f: "\<not> has_key (call_key c1) w" by blast+
  note t = execute_twice [OF g1 g2 f k, of fmt]
  from t show "fst (execute cfg fmt b2 c2 (snd (execute cfg fmt b1 c1 w))) = Inr (duplicate_report c2)"
    by blast
  from t show "snd (execute cfg fmt b2 c2 (snd (execute cfg fmt b1 c1 w))) = snd (execute cfg fmt b1 c1 w)"
    by blast
  from t show "\<exists>n row. dispatched b1 (call_order cfg c1) (retries_max_attempts (execution cfg)) w
                    (snd (execute cfg fmt b2 c2 (snd (execute cfg fmt b1 c1 w)))) n
            \<and> key_rows (call_key c1) (snd (execute cfg fmt b2 c2 (snd (execute cfg fmt b1 c1 w))))
                 = [row]
            \<and> dr_status row \<in> {done_status c1, Error}"
    by blast
qed

lemma upto_1_3: "[1..3] = [1, 2, 3 :: int]"
  by (simp add: upto_rec1)

lemma steady_first:
  "placed (snd (execute live_config plain_fmt steady_broker sample_open empty_world))
     = [call_order live_config sample_open]
   \<and> map dr_status (decisions (snd (execute live_config plain_fmt steady_broker sample_open empty_world)))
     = [Opened]
   \<and> map dr_idempotency_key (decisions (snd (execute live_config plain_fmt steady_broker sample_open empty_world)))
     = [call_key sample_open]"
  by (simp add: execute_def sample_open_def open_trade_def live_config_def default_config_def
        steady_broker_def refused_mode_def demo_account_def try_insert_def has_key_def
        empty_world_def call_with_retries_def upto_1_3 send_def done_result_def Let_def
        update_decision_def verify_open_def sleep_def call_order_def call_key_def
        skipped_row_def)

lemma flaky_first:
  "placed (snd (execute live_config plain_fmt flaky_broker sample_open empty_world))
     = [call_order live_config sample_open, call_order live_config sample_open]
   \<and> map dr_status (decisions (snd (execute live_config plain_fmt flaky_broker sample_open empty_world)))
     = [Opened]
   \<and> map dr_idempotency_key (decisions (snd (execute live_config plain_fmt flaky_broker sample_open empty_world)))
     = [call_key sample_open]"
  by (simp add: execute_def sample_open_def open_trade_def live_config_def default_config_def
        flaky_broker_def steady_broker_def refused_mode_def demo_account_def try_insert_def
        has_key_def empty_world_def call_with_retries_def upto_1_3 send_def done_result_def
        Let_def update_decision_def verify_open_def sleep_def call_order_def call_key_def
        skipped_row_def is_retryable_def)


lemma single_key_row: "map dr_idempotency_key (decisions w) = [k] \<Longrightarrow> has_key k w"
  by (cases "decisions w") (auto simp: has_key_def)

lemma gates_steady: "passes_gates live_config steady_broker"
  by (simp add: passes_gates_def live_config_def default_config_def steady_broker_def
        refused_mode_def demo_account_def)

lemma gates_flaky: "passes_gates live_config flaky_broker"
  by (simp add: passes_gates_def live_config_def default_config_def steady_broker_def
        flaky_broker_def refused_mode_def demo_account_def)

lemma empty_has_no_key: "\<not> has_key k empty_world"
  by (simp add: has_key_def empty_world_def)

lemma sample_key_made:
  "call_key sample_open = make_idempotency_key id ''EURUSD'' ''H1'' ''2026-01-01T00:00:00+00:00''
      ''two_pole_momentum'' ''long''"
  by (simp add: call_key_def sample_open_def sample_args_def)

lemma sample_close_key_made:
  "call_key sample_close = make_idempotency_key id ''EURUSD'' ''H1'' ''2026-01-01T00:00:00+00:00''
      ''two_pole_momentum'' ''long''"
  by (simp add: call_key_def sample_close_def sample_args_def)

theorem idempotent_dispatch_witness:
  "passes_gates live_config flaky_broker \<and> passes_gates live_config steady_broker
   \<and> \<not> has_key (call_key sample_open) empty_world
   \<and> has_key (call_key sample_close)
        (snd (execute live_config plain_fmt flaky_broker sample_open empty_world))
   \<and> snd (execute live_config plain_fmt steady_broker sample_close
             (snd (execute live_config plain_fmt flaky_broker sample_open empty_world)))
        = snd (execute live_config plain_fmt flaky_broker sample_open empty_world)
   \<and> fst (execute live_config plain_fmt steady_broker sample_close
             (snd (execute live_config plain_fmt flaky_broker sample_open empty_world)))
        = Inr (duplicate_report sample_close)
   \<and> (\<exists>n row. dispatched flaky_broker (call_order live_config sample_open)
                  (retries_max_attempts (execution live_config)) empty_world
                  (snd (execute live_config plain_fmt steady_broker sample_close
                     (snd (execute live_config plain_fmt flaky_broker sample_open empty_world)))) n
          \<and> key_rows (call_key sample_open)
               (snd (execute live_config plain_fmt steady_broker sample_close
                  (snd (execute live_config plain_fmt flaky_broker sample_open empty_world))))
               = [row]
          \<and> dr_status row \<in> {done_status sample_open, Error})"
proof -
  let ?w1 = "snd (execute live_config plain_fmt flaky_broker sample_open empty_world)"
  have h: "has_key (call_key sample_close) ?w1"
    using flaky_first by (simp add: single_key_row sample_key_made sample_close_key_made)
  note gates_flaky gates_steady empty_has_no_key [of "call_key sample_open"]
    sample_key_made sample_close_key_made
  with h
    idempotent_dispatch [where c = sample_close and w = ?w1 and cfg = live_config
      and fmt = plain_fmt and b = steady_broker]
    idempotent_dispatch [where w = empty_world and cfg = live_config and fmt = plain_fmt
      and ?b1.0 = flaky_broker and ?b2.0 = steady_broker and ?c1.0 = sample_open
      and ?c2.0 = sample_close and sha256_hex = id and smb = "''EURUSD''" and tf = "''H1''"
      and cct = "''2026-01-01T00:00:00+00:00''" and strat = "''two_pole_momentum''"
      and sd = "''long''"]
  show ?thesis by blast
qed

text \<open>
  C1 as stated fails in two ways.  With trading disabled, a call whose key is already
  stored is answered \<open>trading disabled\<close>, not \<open>duplicate idempotency key\<close>.  With a broker
  whose first answer is a retryable error, two attempts with one key make two
  \<open>place_order\<close> invocations, not one.
\<close>

theorem idempotent_dispatch_counterexample:
  "has_key (call_key sample_open)
     (snd (execute live_config plain_fmt steady_broker sample_open empty_world))
   \<and> fst (execute default_config plain_fmt steady_broker sample_open
            (snd (execute live_config plain_fmt steady_broker sample_open empty_world)))
        = Inr \<lparr>xr_action = ''open'', xr_success = False, xr_reason = ''trading disabled'',
               xr_order = None, xr_result = None\<rparr>
   \<and> ''trading disabled'' \<noteq> ''duplicate idempotency key''
   \<and> call_key sample_open = make_idempotency_key id ''EURUSD'' ''H1''
        ''2026-01-01T00:00:00+00:00'' ''two_pole_momentum'' ''long''
   \<and> placed (snd (execute live_config plain_fmt steady_broker sample_open
                (snd (execute live_config plain_fmt flaky_broker sample_open empty_world))))
        = [call_order live_config sample_open, call_order live_config sample_open]
   \<and> length (placed (snd (execute live_config plain_fmt steady_broker sample_open
                (snd (execute live_config plain_fmt flaky_broker sample_open empty_world))))) \<noteq> 1"
proof -
  let ?ws = "snd (execute live_config plain_fmt steady_broker sample_open empty_world)"
  let ?wf = "snd (execute live_config plain_fmt flaky_broker sample_open empty_world)"
  have hs: "has_key (call_key sample_open) ?ws"
    using steady_first by (simp add: single_key_row)
  have hf: "has_key (call_key sample_open) ?wf"
    using flaky_first by (simp add: single_key_row)
  have off: "fst (execute default_config plain_fmt steady_broker sample_open ?ws)
        = Inr \<lparr>xr_action = ''open'', xr_success = False, xr_reason = ''trading disabled'',
               xr_order = None, xr_result = None\<rparr>"
    by (simp add: execute_def sample_open_def open_trade_def default_config_def report_def)
  have again: "snd (execute live_config plain_fmt steady_broker sample_open ?wf) = ?wf"
    using hf by (rule execute_duplicate(1))
  from hs off again flaky_first sample_key_made show ?thesis by simp
qed

section \<open>The paper-only gate\<close>

text \<open>
  C2.  In every call of \<open>open_trade\<close> or \<open>close_trade\<close> in which the account info fetched
  (trading being enabled, so that it is fetched) reports a trade mode outside DEMO and
  CONTEST, the executor returns the unsuccessful report whose reason starts with
  \<open>paper-only gate\<close>, the broker's \<open>place_order\<close> is not invoked and the store is untouched.
\<close>

theorem paper_only_gate:
  assumes "trading_enabled (execution cfg)" and "account_info_answer b = Inr (Some ai)"
    and "ai_trade_mode ai \<notin> {DEMO, CONTEST}"
  shows "execute cfg fmt b c w =
           (Inr \<lparr>xr_action = call_action c, xr_success = False,
                 xr_reason = ''paper-only gate: trade_mode='' @ fmt_trade_mode fmt (ai_trade_mode ai),
                 xr_order = None, xr_result = None\<rparr>, w)
       \<and> placed (snd (execute cfg fmt b c w)) = placed w
       \<and> decisions (snd (execute cfg fmt b c w)) = decisions w"
  using assms
  by (cases c)
     (simp_all add: execute_def open_trade_def close_trade_def refused_mode_def report_def
        call_action_def)

theorem paper_only_gate_witness:
  "trading_enabled (execution live_config)
   \<and> account_info_answer real_broker
        = Inr (Some \<lparr>ai_balance = Some 1000, ai_equity = Some 1000, ai_trade_mode = REAL\<rparr>)
   \<and> ai_trade_mode \<lparr>ai_balance = Some 1000, ai_equity = Some 1000, ai_trade_mode = REAL\<rparr>
        \<notin> {DEMO, CONTEST}
   \<and> execute live_config plain_fmt real_broker sample_open empty_world =
        (Inr \<lparr>xr_action = ''open'', xr_success = False,
              xr_reason = ''paper-only gate: trade_mode=REAL'',
              xr_order = None, xr_result = None\<rparr>, empty_world)
   \<and> execute live_config plain_fmt real_broker sample_close empty_world =
        (Inr \<lparr>xr_action = ''close'', xr_success = False,
              xr_reason = ''paper-only gate: trade_mode=REAL'',
              xr_order = None, xr_result = None\<rparr>, empty_world)
   \<and> placed (snd (execute live_config plain_fmt real_broker sample_open empty_world)) = []"
proof -
  let ?ai = "\<lparr>ai_balance = Some 1000, ai_equity = Some 1000, ai_trade_mode = REAL\<rparr>"
  have a: "trading_enabled (execution live_config)"
    by (simp add: live_config_def default_config_def)
  have b: "account_info_answer real_broker = Inr (Some ?ai)"
    by (simp add: real_broker_def steady_broker_def)
  have c: "ai_trade_mode ?ai \<notin> {DEMO, CONTEST}" by simp
  from paper_only_gate [OF a b c, of plain_fmt sample_open empty_world]
    paper_only_gate [OF a b c, of plain_fmt sample_close empty_world] a b c
  show ?thesis
    by (simp add: call_action_def sample_open_def sample_close_def plain_fmt_def empty_world_def)
qed

section \<open>The greedy correlation filter\<close>




lemma admit_loop_grows:
  "\<exists>more. fst (admit_loop fmt corr mx top_n ranked acc) = fst acc @ more"
proof (induction ranked arbitrary: acc)
  case Nil
  show ?case by simp
next
  case (Cons s rest)
  show ?case
  proof (cases "first_conflict corr mx s (fst acc)")
    case None
    from Cons.IH [of "(fst acc @ [s], snd acc)"] None show ?thesis by auto
  next
    case (Some s2)
    from Cons.IH [of "(fst acc, (snd acc)(s \<mapsto> conflict_reason fmt corr mx s s2))"] Some
    show ?thesis by auto
  qed
qed























section \<open>Robust min-max scaling and non-finite entries\<close>

lemma spiked_finite: "finite_values spiked_input = [1, 1, 1, 1, 2]"
  by (simp add: finite_values_def spiked_input_def)

lemma spiked_quartiles:
  "quantile [1, 1, 1, 1, 2] (1 / 4) = 1" "quantile [1, 1, 1, 1, 2] (3 / 4) = 1"
  by (simp_all add: quantile_def Let_def)

text \<open>
  C7.  The claim is that every output entry lies in [0,1], or is NaN at a non-finite input
  entry.  On \<open>[1, 1, 1, 1, 2, +inf]\<close> the quartiles of the finite values coincide, the
  function falls back to plain min-max of the unclipped array, and the entry at the
  infinity comes out as \<open>+inf\<close>: neither in [0,1] nor NaN.  (With an interquartile range
  above the threshold the infinity would have been clipped into the range first.)
\<close>

theorem robust_minmax_leaks_infinity:
  "robust_minmax spiked_input = [Fin 0, Fin 0, Fin 0, Fin 0, Fin 1, PInf]
   \<and> \<not> unit_or_nan (spiked_input ! 5) (robust_minmax spiked_input ! 5)"
  by (simp add: robust_minmax_def spiked_finite spiked_quartiles Let_def eps12_def
        list_min_def list_max_def np_sub_def np_div_def unit_or_nan_def)
     (simp add: spiked_input_def np_sub_def np_div_def)


text \<open>
  What does hold: the output has the length of the input, and on an input without
  infinities every entry lies in [0,1] or is NaN where the input is NaN.
\<close>

lemma list_min_le: "x \<in> set xs \<Longrightarrow> list_min xs \<le> x"
proof -
  assume x: "x \<in> set xs"
  then obtain y ys where xs: "xs = y # ys" by (cases xs) auto
  have "list_min xs = Min (set xs)"
    unfolding xs list_min_def using Min.set_eq_fold [of y ys] by simp
  with x show ?thesis by simp
qed

lemma list_max_ge: "x \<in> set xs \<Longrightarrow> x \<le> list_max xs"
proof -
  assume x: "x \<in> set xs"
  then obtain y ys where xs: "xs = y # ys" by (cases xs) auto
  have "list_max xs = Max (set xs)"
    unfolding xs list_max_def using Max.set_eq_fold [of y ys] by simp
  with x show ?thesis by simp
qed

lemma Fin_in_finite_values: "Fin r \<in> set v \<Longrightarrow> r \<in> set (finite_values v)"
  by (induction v) (auto simp: finite_values_def split: npfloat.splits)

lemma scaled_in_unit:
  assumes "r \<in> set xs" and "eps12 < \<bar>list_max xs - list_min xs\<bar>"
  shows "0 \<le> (r - list_min xs) / (list_max xs - list_min xs)
       \<and> (r - list_min xs) / (list_max xs - list_min xs) \<le> 1"
proof -
  from assms(1) have lo: "list_min xs \<le> r" and hi: "r \<le> list_max xs"
    by (simp_all add: list_min_le list_max_ge)
  have "0 < eps12" by (simp add: eps12_def)
  with assms(2) lo hi have d: "0 < list_max xs - list_min xs" by linarith
  from lo hi d show ?thesis by (simp add: field_simps)
qed

lemma robust_minmax_length: "length (robust_minmax v) = length v"
  by (simp add: robust_minmax_def Let_def)

lemma robust_minmax_entry:
  assumes x: "x \<in> set v" and noinf: "x \<noteq> PInf" "x \<noteq> NInf"
  shows "
    (let finite = finite_values v
      in if finite = [] then unit_or_nan x NaN
         else
           let med = median finite;
               q1 = quantile finite (1 / 4);
               q3 = quantile finite (3 / 4);
               iqr = q3 - q1
           in if iqr \<le> eps12
              then
                let mn = list_min finite; mx = list_max finite
                in if \<bar>mx - mn\<bar> \<le> eps12 then unit_or_nan x (Fin (1 / 2))
                   else unit_or_nan x (np_div (np_sub x mn) (mx - mn))
              else
                let lo = med - 3 * iqr;
                    hi = med + 3 * iqr;
                    clipped = map (np_clip lo hi) v;
                    mn = list_min (finite_values clipped);
                    mx = list_max (finite_values clipped)
                in if \<bar>mx - mn\<bar> \<le> eps12 then unit_or_nan x (Fin (1 / 2))
                   else unit_or_nan x (np_div (np_sub (np_clip lo hi x) mn) (mx - mn)))"
proof (cases x)
  case (Fin r)
  with x have r: "r \<in> set (finite_values v)" by (simp add: Fin_in_finite_values)
  then have ne: "finite_values v \<noteq> []" by auto
  have clip: "min (max r lo) hi \<in> set (finite_values (map (np_clip lo hi) v))" for lo hi
  proof -
    from x Fin have "np_clip lo hi (Fin r) \<in> set (map (np_clip lo hi) v)" by auto
    then show ?thesis by (simp add: np_clip_def Fin_in_finite_values)
  qed
  show ?thesis
    using scaled_in_unit [OF r] scaled_in_unit [OF clip]
    by (simp add: Let_def Fin ne unit_or_nan_def np_sub_def np_div_def np_clip_def not_le)
next
  case NaN
  then show ?thesis by (simp add: Let_def unit_or_nan_def np_sub_def np_div_def np_clip_def)
qed (use noinf in simp_all)

lemma robust_minmax_without_infinities:
  assumes "PInf \<notin> set v" and "NInf \<notin> set v" and "i < length v"
  shows "unit_or_nan (v ! i) (robust_minmax v ! i)"
proof -
  from assms have x: "v ! i \<in> set v" and n: "v ! i \<noteq> PInf" "v ! i \<noteq> NInf"
    by (auto simp: in_set_conv_nth) 
  from robust_minmax_entry [OF x n] assms(3) show ?thesis
    by (simp add: robust_minmax_def Let_def split: if_splits)
qed

end
